theory Spec2Isabelle
  imports Main
begin

section \<open>Authentication and session lifecycle: the data model\<close>

text \<open>
  The development embeds \<^verbatim>\<open>AuthService\<close> (login, register, refreshTokens, logout,
  validateUser and their private helpers) together with the parts of
  \<^verbatim>\<open>UsersService\<close> and of the \<^verbatim>\<open>RefreshToken\<close> entity they use.

  Times are integers: milliseconds since the epoch, as \<^verbatim>\<open>Date.now()\<close> returns them.
  Every operation takes one clock value for the whole call (\<open>now\<close> of its call context).
  Exceptions are values of the type \<open>error\<close>: the exception class with its message.
\<close>

datatype error =
    UnauthorizedException string
  | BadRequestException string
  | ConflictException string
  | InternalError string

record user_summary =
  id_u :: string
  email :: string
  name :: string
  role :: string

text \<open>The \<^verbatim>\<open>User\<close> entity; \<open>tokenVersion\<close> is \<open>None\<close> where the column was not loaded.\<close>

record user = user_summary +
  password :: string
  tokenVersion :: "nat option"

text \<open>The \<^verbatim>\<open>RefreshToken\<close> entity (table \<^verbatim>\<open>refresh_tokens\<close>), with the user as a foreign key.\<close>

record refresh_token =
  id_rt :: string
  token :: string
  userId :: string
  expiresAt :: int
  isActive :: bool

record token_pair =
  accessToken :: string
  refreshToken :: string

record auth_response = token_pair +
  user :: user_summary

record login_dto =
  login_email :: string
  login_password :: string

record create_user_dto =
  dto_email :: string
  dto_name :: string
  dto_password :: string
  dto_role :: "string option"

subsection \<open>The TTL cache\<close>

text \<open>
  The cache manager is a key/value store whose entries carry a time to live in milliseconds.
  An entry is kept with the absolute time at which it expires; \<open>cache_get\<close> does not see an
  entry at or after that time. The values the service stores are booleans (lockout and
  blacklist markers), numbers (attempt counters) and users.
\<close>

datatype cache_value = CBool bool | CNum nat | CUser user

type_synonym cache = "string \<rightharpoonup> (cache_value \<times> int)"

definition cache_get :: "cache \<Rightarrow> int \<Rightarrow> string \<Rightarrow> cache_value option" where
  "cache_get c t k = (case c k of None \<Rightarrow> None | Some (v, e) \<Rightarrow> if t < e then Some v else None)"

definition cache_set :: "cache \<Rightarrow> int \<Rightarrow> string \<Rightarrow> cache_value \<Rightarrow> int \<Rightarrow> cache" where
  "cache_set c t k v ttl = c(k \<mapsto> (v, t + ttl))"

definition cache_del :: "cache \<Rightarrow> string \<Rightarrow> cache" where
  "cache_del c k = c(k := None)"

text \<open>JavaScript truthiness of what a lookup returns (\<^verbatim>\<open>undefined\<close>, \<^verbatim>\<open>false\<close> and \<^verbatim>\<open>0\<close> are falsy).\<close>

fun truthy :: "cache_value option \<Rightarrow> bool" where
  "truthy None = False"
| "truthy (Some (CBool b)) = b"
| "truthy (Some (CNum n)) = (n \<noteq> 0)"
| "truthy (Some (CUser u)) = True"

text \<open>
  \<^verbatim>\<open>cacheManager.get<number>(key)\<close> and \<^verbatim>\<open>cacheManager.get<User>(key)\<close>: the lookup read at the
  type the source gives it; a value of another type is read as absent.
\<close>

definition cache_get_number :: "cache \<Rightarrow> int \<Rightarrow> string \<Rightarrow> nat option" where
  "cache_get_number c t k = (case cache_get c t k of Some (CNum n) \<Rightarrow> Some n | _ \<Rightarrow> None)"

definition cache_get_user :: "cache \<Rightarrow> int \<Rightarrow> string \<Rightarrow> user option" where
  "cache_get_user c t k = (case cache_get c t k of Some (CUser u) \<Rightarrow> Some u | _ \<Rightarrow> None)"

subsection \<open>State, collaborators and call context\<close>

text \<open>
  The state is the users table, the committed rows of \<^verbatim>\<open>refresh_tokens\<close> (in the order in
  which the store returns them) and the cache.
\<close>

record state =
  users :: "user list"
  refresh_tokens :: "refresh_token list"
  cache :: cache

text \<open>
  What \<^verbatim>\<open>jwtService.signAsync\<close> is given: the payload, the options and the time of signing.
\<close>

datatype jwt_payload =
    AccessPayload string string string nat
  | RefreshPayload string

record sign_options =
  secret :: "string option"
  expiresIn :: string

record decoded_jwt =
  exp_claim :: "int option"

text \<open>
  The collaborators the service is constructed with: the configuration, the JWT service
  (signing may fail, decoding returns \<^verbatim>\<open>null\<close> for a malformed token), bcrypt, and the two
  declarations of the repository the users service relies on (the value of
  \<^verbatim>\<open>UserRole.USER\<close> and the token version a created user carries).
\<close>

record env =
  config :: "string \<rightharpoonup> string"
  signAsync :: "jwt_payload \<Rightarrow> sign_options \<Rightarrow> int \<Rightarrow> string option"
  decode :: "string \<Rightarrow> decoded_jwt option"
  bcrypt_compare :: "string \<Rightarrow> string \<Rightarrow> bool"
  bcrypt_hash :: "string \<Rightarrow> string"
  UserRole_USER :: string
  created_tokenVersion :: "nat option"

text \<open>
  What one call draws from outside: the clock, the value \<^verbatim>\<open>uuidv4()\<close> returns, the id the
  store generates for a created user, and which of the call's writes to the persistent
  store (numbered in program order, the commit included) the store rejects.
\<close>

record ctx =
  now :: int
  uuidv4 :: string
  generated_user_id :: string
  failing_writes :: "nat set"

definition config_get :: "env \<Rightarrow> string \<Rightarrow> string \<Rightarrow> string" where
  "config_get E k d = (case config E k of None \<Rightarrow> d | Some v \<Rightarrow> v)"

definition MAX_LOGIN_ATTEMPTS :: nat where
  "MAX_LOGIN_ATTEMPTS = 5"

definition LOCKOUT_DURATION :: int where
  "LOCKOUT_DURATION = 15 * 60 * 1000"

subsection \<open>The persistent store\<close>

text \<open>
  \<^verbatim>\<open>manager.save(entity)\<close> writes by primary key: a row with the entity's id is replaced,
  otherwise the entity is inserted. A rejected write raises.
\<close>

definition upsert :: "refresh_token list \<Rightarrow> refresh_token \<Rightarrow> refresh_token list" where
  "upsert rows r =
     (if \<exists>x \<in> set rows. id_rt x = id_rt r
      then map (\<lambda>x. if id_rt x = id_rt r then r else x) rows
      else rows @ [r])"

definition store_error :: error where
  "store_error = InternalError ''QueryFailedError''"

definition save :: "ctx \<Rightarrow> nat \<Rightarrow> refresh_token list \<Rightarrow> refresh_token \<Rightarrow> error + refresh_token list" where
  "save c k rows r = (if k \<in> failing_writes c then Inl store_error else Inr (upsert rows r))"

text \<open>
  \<^verbatim>\<open>startTransaction(); try { body; commitTransaction() } catch { rollbackTransaction(); throw }\<close>:
  the body works on the rows of the transaction; a failure of the body or of the commit
  (write number \<open>k\<close> of the call) puts the committed rows back. Only the rows of
  \<^verbatim>\<open>refresh_tokens\<close> are written through the query runner, so only they are rolled back.
\<close>

definition in_transaction ::
  "ctx \<Rightarrow> nat \<Rightarrow> (state \<Rightarrow> (error + 'a) \<times> state) \<Rightarrow> state \<Rightarrow> (error + 'a) \<times> state" where
  "in_transaction c k body s =
     (case body s of
        (Inl e, s1) \<Rightarrow> (Inl e, s1\<lparr>refresh_tokens := refresh_tokens s\<rparr>)
      | (Inr r, s1) \<Rightarrow>
          if k \<in> failing_writes c
          then (Inl store_error, s1\<lparr>refresh_tokens := refresh_tokens s\<rparr>)
          else (Inr r, s1))"

section \<open>The operations of the authentication service\<close>

subsection \<open>Lockout bookkeeping\<close>

definition checkUserLockout :: "state \<Rightarrow> int \<Rightarrow> string \<Rightarrow> error + unit" where
  "checkUserLockout s t e =
     (let lockoutKey = ''lockout:'' @ e;
          lockoutData = cache_get (cache s) t lockoutKey
      in if truthy lockoutData
         then Inl (UnauthorizedException
                ''Account temporarily locked due to too many failed attempts'')
         else Inr ())"

definition recordFailedAttempt :: "state \<Rightarrow> int \<Rightarrow> string \<Rightarrow> state" where
  "recordFailedAttempt s t e =
     (let attemptsKey = ''attempts:'' @ e;
          attempts = (case cache_get_number (cache s) t attemptsKey of None \<Rightarrow> 0 | Some n \<Rightarrow> n);
          newAttempts = attempts + 1
      in if newAttempts \<ge> MAX_LOGIN_ATTEMPTS
         then s\<lparr>cache := cache_del
                 (cache_set (cache s) t (''lockout:'' @ e) (CBool True) LOCKOUT_DURATION)
                 attemptsKey\<rparr>
         else s\<lparr>cache := cache_set (cache s) t attemptsKey (CNum newAttempts) LOCKOUT_DURATION\<rparr>)"

definition clearFailedAttempts :: "state \<Rightarrow> string \<Rightarrow> state" where
  "clearFailedAttempts s e = s\<lparr>cache := cache_del (cache s) (''attempts:'' @ e)\<rparr>"

subsection \<open>Credentials and tokens\<close>

definition verifyPassword :: "env \<Rightarrow> string \<Rightarrow> string \<Rightarrow> bool" where
  "verifyPassword E plainPassword hashedPassword = bcrypt_compare E plainPassword hashedPassword"

definition simulatePasswordCheck :: "env \<Rightarrow> bool" where
  "simulatePasswordCheck E =
     bcrypt_compare E ''dummy'' ''$2b$10$dummy.hash.to.prevent.timing.attacks''"

text \<open>
  \<^verbatim>\<open>UsersService.findByEmail\<close>: the first user with the email, with the selected columns
  (id, email, name, role, password); the token version is not among them.
\<close>

definition findByEmail :: "state \<Rightarrow> string \<Rightarrow> user option" where
  "findByEmail s e =
     map_option (\<lambda>u. u\<lparr>tokenVersion := None\<rparr>) (find (\<lambda>u. email u = e) (users s))"

text \<open>
  \<^verbatim>\<open>UsersService.create\<close>: refuses a taken email, hashes the password, defaults the role and
  saves the user through the users repository (write \<open>k\<close> of the call; the repository is
  not the query runner of the caller's transaction).
\<close>

definition create :: "env \<Rightarrow> ctx \<Rightarrow> nat \<Rightarrow> state \<Rightarrow> create_user_dto \<Rightarrow> (error + user) \<times> state" where
  "create E c k s dto =
     (case findByEmail s (dto_email dto) of
        Some existingUser \<Rightarrow>
          (Inl (ConflictException (''User with email '' @ dto_email dto @ '' already exists'')), s)
      | None \<Rightarrow>
          (let hashedPassword = bcrypt_hash E (dto_password dto);
               savedUser = \<lparr>id_u = generated_user_id c, email = dto_email dto, name = dto_name dto,
                  role = (case dto_role dto of
                            None \<Rightarrow> UserRole_USER E
                          | Some r \<Rightarrow> if r = [] then UserRole_USER E else r),
                  password = hashedPassword, tokenVersion = created_tokenVersion E\<rparr>
           in if k \<in> failing_writes c
              then (Inl (BadRequestException ''Failed to create user''), s)
              else (Inr savedUser, s\<lparr>users := users s @ [savedUser]\<rparr>)))"

text \<open>
  Both tokens are signed at the time of the call; the expirations and the secrets come from
  the configuration. If either signature fails, the pair fails.
\<close>

definition generateTokenPair :: "env \<Rightarrow> ctx \<Rightarrow> user \<Rightarrow> error + token_pair" where
  "generateTokenPair E c u =
     (let jwtPayload = AccessPayload (id_u u) (email u) (role u)
                         (case tokenVersion u of None \<Rightarrow> 0 | Some v \<Rightarrow> v)
      in case (signAsync E jwtPayload
                 \<lparr>secret = config E ''JWT_ACCESS_SECRET'',
                  expiresIn = config_get E ''JWT_ACCESS_EXPIRATION'' ''15m''\<rparr> (now c),
               signAsync E (RefreshPayload (id_u u))
                 \<lparr>secret = config E ''JWT_REFRESH_SECRET'',
                  expiresIn = config_get E ''JWT_REFRESH_EXPIRATION'' ''7d''\<rparr> (now c)) of
           (Some a, Some r) \<Rightarrow> Inr \<lparr>accessToken = a, refreshToken = r\<rparr>
         | _ \<Rightarrow> Inl (InternalError ''JsonWebTokenError''))"

definition storeRefreshToken ::
  "ctx \<Rightarrow> nat \<Rightarrow> refresh_token list \<Rightarrow> string \<Rightarrow> string \<Rightarrow> error + refresh_token list" where
  "storeRefreshToken c k rows uid tok =
     save c k rows
       \<lparr>id_rt = uuidv4 c, token = tok, userId = uid,
        expiresAt = now c + 7 * 24 * 60 * 60 * 1000, isActive = True\<rparr>"

subsection \<open>login\<close>

definition login_body :: "env \<Rightarrow> ctx \<Rightarrow> login_dto \<Rightarrow> state \<Rightarrow> (error + auth_response) \<times> state" where
  "login_body E c dto s =
     (case findByEmail s (login_email dto) of
        None \<Rightarrow>
          (let dummy = simulatePasswordCheck E;
               s1 = recordFailedAttempt s (now c) (login_email dto)
           in (Inl (UnauthorizedException ''Invalid credentials''), s1))
      | Some u \<Rightarrow>
          (let isPasswordValid = verifyPassword E (login_password dto) (password u)
           in if \<not> isPasswordValid
              then (Inl (UnauthorizedException ''Invalid credentials''),
                    recordFailedAttempt s (now c) (login_email dto))
              else
                (let s1 = clearFailedAttempts s (login_email dto)
                 in case generateTokenPair E c u of
                      Inl e \<Rightarrow> (Inl e, s1)
                    | Inr tokens \<Rightarrow>
                        (case storeRefreshToken c 0 (refresh_tokens s1) (id_u u)
                                (refreshToken tokens) of
                           Inl e \<Rightarrow> (Inl e, s1)
                         | Inr rows \<Rightarrow>
                             (Inr \<lparr>accessToken = accessToken tokens,
                                   refreshToken = refreshToken tokens,
                                   user = \<lparr>id_u = id_u u, email = email u,
                                           name = name u, role = role u\<rparr>\<rparr>,
                              s1\<lparr>refresh_tokens := rows\<rparr>)))))"

text \<open>The lockout check comes first, before the transaction is opened.\<close>

definition login :: "env \<Rightarrow> ctx \<Rightarrow> state \<Rightarrow> login_dto \<Rightarrow> (error + auth_response) \<times> state" where
  "login E c s dto =
     (case checkUserLockout s (now c) (login_email dto) of
        Inl e \<Rightarrow> (Inl e, s)
      | Inr ok \<Rightarrow> in_transaction c 1 (login_body E c dto) s)"

subsection \<open>register\<close>

definition register_body ::
  "env \<Rightarrow> ctx \<Rightarrow> create_user_dto \<Rightarrow> state \<Rightarrow> (error + auth_response) \<times> state" where
  "register_body E c dto s =
     (case findByEmail s (dto_email dto) of
        Some existingUser \<Rightarrow>
          (Inl (BadRequestException ''User with this email already exists''), s)
      | None \<Rightarrow>
          (case create E c 0 s dto of
             (Inl e, s1) \<Rightarrow> (Inl e, s1)
           | (Inr u, s1) \<Rightarrow>
               (case generateTokenPair E c u of
                  Inl e \<Rightarrow> (Inl e, s1)
                | Inr tokens \<Rightarrow>
                    (case storeRefreshToken c 1 (refresh_tokens s1) (id_u u)
                            (refreshToken tokens) of
                       Inl e \<Rightarrow> (Inl e, s1)
                     | Inr rows \<Rightarrow>
                         (Inr \<lparr>accessToken = accessToken tokens,
                               refreshToken = refreshToken tokens,
                               user = \<lparr>id_u = id_u u, email = email u,
                                       name = name u, role = role u\<rparr>\<rparr>,
                          s1\<lparr>refresh_tokens := rows\<rparr>)))))"

definition register :: "env \<Rightarrow> ctx \<Rightarrow> state \<Rightarrow> create_user_dto \<Rightarrow> (error + auth_response) \<times> state" where
  "register E c s dto = in_transaction c 2 (register_body E c dto) s"

subsection \<open>refreshTokens\<close>

text \<open>
  \<^verbatim>\<open>findOne(RefreshToken, {where: {token, isActive: true}, relations: ['user']})\<close>: the first
  active row with the token, and its user joined from the users table (absent if no user
  has the row's \<open>userId\<close>; signing for an absent user raises a \<^verbatim>\<open>TypeError\<close>).
\<close>

definition findOne_active :: "state \<Rightarrow> string \<Rightarrow> refresh_token option" where
  "findOne_active s tok = find (\<lambda>r. token r = tok \<and> isActive r) (refresh_tokens s)"

definition user_relation :: "state \<Rightarrow> refresh_token \<Rightarrow> user option" where
  "user_relation s r = find (\<lambda>u. id_u u = userId r) (users s)"

definition refreshTokens_body ::
  "env \<Rightarrow> ctx \<Rightarrow> string \<Rightarrow> state \<Rightarrow> (error + auth_response) \<times> state" where
  "refreshTokens_body E c tok s =
     (case findOne_active s tok of
        None \<Rightarrow> (Inl (UnauthorizedException ''Invalid refresh token''), s)
      | Some storedToken \<Rightarrow>
          if expiresAt storedToken < now c
          then (Inl (UnauthorizedException ''Invalid refresh token''), s)
          else
            (let isBlacklisted = cache_get (cache s) (now c) (''blacklist:'' @ tok)
             in if truthy isBlacklisted
                then (Inl (UnauthorizedException ''Token has been revoked''), s)
                else
                  (case save c 0 (refresh_tokens s) (storedToken\<lparr>isActive := False\<rparr>) of
                     Inl e \<Rightarrow> (Inl e, s)
                   | Inr rows1 \<Rightarrow>
                       (let s1 = s\<lparr>refresh_tokens := rows1\<rparr>
                        in case user_relation s storedToken of
                             None \<Rightarrow> (Inl (InternalError ''TypeError''), s1)
                           | Some u \<Rightarrow>
                               (case generateTokenPair E c u of
                                  Inl e \<Rightarrow> (Inl e, s1)
                                | Inr tokens \<Rightarrow>
                                    (case storeRefreshToken c 1 (refresh_tokens s1) (id_u u)
                                            (refreshToken tokens) of
                                       Inl e \<Rightarrow> (Inl e, s1)
                                     | Inr rows2 \<Rightarrow>
                                         (Inr \<lparr>accessToken = accessToken tokens,
                                               refreshToken = refreshToken tokens,
                                               user = \<lparr>id_u = id_u u, email = email u,
                                                       name = name u, role = role u\<rparr>\<rparr>,
                                          s1\<lparr>refresh_tokens := rows2\<rparr>)))))))"

definition refreshTokens :: "env \<Rightarrow> ctx \<Rightarrow> state \<Rightarrow> string \<Rightarrow> (error + auth_response) \<times> state" where
  "refreshTokens E c s tok = in_transaction c 2 (refreshTokens_body E c tok) s"

subsection \<open>refreshTokens, split where it awaits\<close>

text \<open>
  The body of \<open>refreshTokens\<close> awaits the store and the cache one call at a time, and the
  server runs other requests between two awaits. \<open>refresh_read\<close> is the part of the body up
  to and including the blacklist lookup: it reads the rows and the cache and writes
  nothing. \<open>refresh_write\<close> is the rest: the save of the row that was read, now inactive,
  the signing, the save of the new row and the commit. The store is configured without an
  isolation level, so each statement of a transaction sees the rows committed when it runs,
  and nothing a transaction writes is seen by another before the commit; the write part
  therefore works on the rows committed when it runs, with the row and the user that the
  read part returned. The source takes no lock on the row it reads and saves it by primary
  key whatever its state.
\<close>

definition refresh_read :: "ctx \<Rightarrow> string \<Rightarrow> state \<Rightarrow> error + (refresh_token \<times> user option)" where
  "refresh_read c tok s =
     (case findOne_active s tok of
        None \<Rightarrow> Inl (UnauthorizedException ''Invalid refresh token'')
      | Some storedToken \<Rightarrow>
          if expiresAt storedToken < now c
          then Inl (UnauthorizedException ''Invalid refresh token'')
          else
            (let isBlacklisted = cache_get (cache s) (now c) (''blacklist:'' @ tok)
             in if truthy isBlacklisted
                then Inl (UnauthorizedException ''Token has been revoked'')
                else Inr (storedToken, user_relation s storedToken)))"

definition refresh_write_body ::
  "env \<Rightarrow> ctx \<Rightarrow> refresh_token \<times> user option \<Rightarrow> state \<Rightarrow> (error + auth_response) \<times> state" where
  "refresh_write_body E c found s =
     (case save c 0 (refresh_tokens s) ((fst found)\<lparr>isActive := False\<rparr>) of
        Inl e \<Rightarrow> (Inl e, s)
      | Inr rows1 \<Rightarrow>
          (let s1 = s\<lparr>refresh_tokens := rows1\<rparr>
           in case snd found of
                None \<Rightarrow> (Inl (InternalError ''TypeError''), s1)
              | Some u \<Rightarrow>
                  (case generateTokenPair E c u of
                     Inl e \<Rightarrow> (Inl e, s1)
                   | Inr tokens \<Rightarrow>
                       (case storeRefreshToken c 1 (refresh_tokens s1) (id_u u)
                               (refreshToken tokens) of
                          Inl e \<Rightarrow> (Inl e, s1)
                        | Inr rows2 \<Rightarrow>
                            (Inr \<lparr>accessToken = accessToken tokens,
                                  refreshToken = refreshToken tokens,
                                  user = \<lparr>id_u = id_u u, email = email u,
                                          name = name u, role = role u\<rparr>\<rparr>,
                             s1\<lparr>refresh_tokens := rows2\<rparr>)))))"

definition refresh_write ::
  "env \<Rightarrow> ctx \<Rightarrow> refresh_token \<times> user option \<Rightarrow> state \<Rightarrow> (error + auth_response) \<times> state" where
  "refresh_write E c found s = in_transaction c 2 (refresh_write_body E c found) s"

subsection \<open>logout and revocation\<close>

text \<open>
  \<^verbatim>\<open>manager.update(RefreshToken, criteria, {isActive: false})\<close>, outside any transaction:
  every row that meets the criteria is written.
\<close>

definition update_inactive :: "(refresh_token \<Rightarrow> bool) \<Rightarrow> refresh_token list \<Rightarrow> refresh_token list" where
  "update_inactive crit rows = map (\<lambda>r. if crit r then r\<lparr>isActive := False\<rparr> else r) rows"

definition logout :: "env \<Rightarrow> ctx \<Rightarrow> state \<Rightarrow> string \<Rightarrow> string \<Rightarrow> (error + unit) \<times> state" where
  "logout E c s tok uid =
     (let s1 =
        (case decode E tok of
           None \<Rightarrow> s
         | Some decoded \<Rightarrow>
             (case exp_claim decoded of
                None \<Rightarrow> s
              | Some e \<Rightarrow>
                  if e = 0 then s
                  else (let ttl = e - now c div 1000
                        in if ttl > 0
                           then s\<lparr>cache := cache_set (cache s) (now c) (''blacklist:'' @ tok)
                                             (CBool True) (ttl * 1000)\<rparr>
                           else s)))
      in if 0 \<in> failing_writes c then (Inl store_error, s1)
         else (Inr (),
               s1\<lparr>refresh_tokens :=
                    update_inactive (\<lambda>r. userId r = uid \<and> isActive r) (refresh_tokens s1)\<rparr>))"

definition revokeAllRefreshTokens :: "ctx \<Rightarrow> state \<Rightarrow> string \<Rightarrow> (error + unit) \<times> state" where
  "revokeAllRefreshTokens c s uid =
     (if 0 \<in> failing_writes c then (Inl store_error, s)
      else (Inr (),
            s\<lparr>refresh_tokens := update_inactive (\<lambda>r. userId r = uid) (refresh_tokens s)\<rparr>))"

subsection \<open>validateUser\<close>

text \<open>
  The fetch that would fill \<open>u\<close> on a miss is commented out in the source, so on a miss the
  inner test reads the same, absent, \<open>u\<close>.
\<close>

definition validateUser :: "state \<Rightarrow> int \<Rightarrow> string \<Rightarrow> user option \<times> state" where
  "validateUser s t uid =
     (let cacheKey = ''user:'' @ uid;
          u = cache_get_user (cache s) t cacheKey
      in case u of
           None \<Rightarrow>
             (case u of
                Some x \<Rightarrow> (u, s\<lparr>cache := cache_set (cache s) t cacheKey (CUser x) 300000\<rparr>)
              | None \<Rightarrow> (u, s))
         | Some x \<Rightarrow> (u, s))"

definition validateUserRoles :: "state \<Rightarrow> int \<Rightarrow> string \<Rightarrow> string list \<Rightarrow> bool \<times> state" where
  "validateUserRoles s t uid requiredRoles =
     (case validateUser s t uid of
        (None, s1) \<Rightarrow> (False, s1)
      | (Some u, s1) \<Rightarrow> (role u \<in> set requiredRoles, s1))"

section \<open>Runs of failed logins\<close>

text \<open>
  A run of login calls made one after the other, each of which fails with the invalid
  credentials error; the state after the run, or \<open>None\<close> if one of the calls ends otherwise.
\<close>

fun failed_attempts :: "env \<Rightarrow> state \<Rightarrow> (ctx \<times> login_dto) list \<Rightarrow> state option" where
  "failed_attempts E s [] = Some s"
| "failed_attempts E s (cd # rest) =
     (case login E (fst cd) s (snd cd) of
        (Inl err, s1) \<Rightarrow>
          if err = UnauthorizedException ''Invalid credentials''
          then failed_attempts E s1 rest else None
      | (Inr r, s1) \<Rightarrow> None)"

text \<open>
  The times of a run keep the attempt counter alive: each call comes before the counter
  entry written by the call before it runs out.
\<close>

fun counter_alive :: "int list \<Rightarrow> bool" where
  "counter_alive (t1 # t2 # ts) = (t2 < t1 + LOCKOUT_DURATION \<and> counter_alive (t2 # ts))"
| "counter_alive ts = True"

text \<open>The number of attempts the cache holds for an identity at a time, as \<open>recordFailedAttempt\<close> reads it.\<close>

definition recorded_attempts :: "state \<Rightarrow> int \<Rightarrow> string \<Rightarrow> nat" where
  "recorded_attempts s t e =
     (case cache_get_number (cache s) t (''attempts:'' @ e) of None \<Rightarrow> 0 | Some n \<Rightarrow> n)"

section \<open>Sample collaborators and states\<close>

text \<open>
  A signer that, like an HMAC-signed JWT, is a function of the payload, of the options and
  of the time of signing in whole seconds (the \<^verbatim>\<open>iat\<close> claim), written in unary.
\<close>

definition sample_sign :: "jwt_payload \<Rightarrow> sign_options \<Rightarrow> int \<Rightarrow> string option" where
  "sample_sign p opts t =
     Some ((case p of AccessPayload sub e r v \<Rightarrow> ''access.'' @ sub
                    | RefreshPayload sub \<Rightarrow> ''refresh.'' @ sub)
           @ ''.'' @ replicate (nat (t div 1000)) (CHR ''1'') @ ''.'' @ expiresIn opts)"

definition sample_env :: env where
  "sample_env =
     \<lparr>config = [''JWT_ACCESS_SECRET'' \<mapsto> ''access-secret'',
                ''JWT_REFRESH_SECRET'' \<mapsto> ''refresh-secret''],
      signAsync = sample_sign,
      decode = (\<lambda>tok. if tok = ''access.u1.1.15m''
                       then Some \<lparr>exp_claim = Some 901\<rparr> else None),
      bcrypt_compare = (\<lambda>plain hashed. hashed = ''hash:'' @ plain),
      bcrypt_hash = (\<lambda>plain. ''hash:'' @ plain),
      UserRole_USER = ''user'',
      created_tokenVersion = Some 0\<rparr>"

text \<open>The same collaborators with the refresh expiration configured to thirty days.\<close>

definition month_env :: env where
  "month_env = sample_env\<lparr>config := (config sample_env)(''JWT_REFRESH_EXPIRATION'' \<mapsto> ''30d'')\<rparr>"

definition alice :: user where
  "alice = \<lparr>id_u = ''u1'', email = ''alice@example.com'', name = ''Alice'', role = ''user'',
            password = ''hash:Str0ngPass!'', tokenVersion = Some 0\<rparr>"

definition sample_state :: state where
  "sample_state = \<lparr>users = [alice], refresh_tokens = [], cache = Map.empty\<rparr>"

definition alice_login :: login_dto where
  "alice_login = \<lparr>login_email = ''alice@example.com'', login_password = ''Str0ngPass!''\<rparr>"

definition wrong_login :: login_dto where
  "wrong_login = \<lparr>login_email = ''alice@example.com'', login_password = ''wrong''\<rparr>"

definition ghost_login :: login_dto where
  "ghost_login = \<lparr>login_email = ''nobody@example.com'', login_password = ''wrong''\<rparr>"

definition bob_dto :: create_user_dto where
  "bob_dto = \<lparr>dto_email = ''bob@example.com'', dto_name = ''Bob'',
               dto_password = ''Secret123'', dto_role = None\<rparr>"

text \<open>A call at time \<open>t\<close> whose \<^verbatim>\<open>uuidv4()\<close> returns \<open>i\<close> and whose writes all succeed.\<close>

definition at :: "int \<Rightarrow> string \<Rightarrow> ctx" where
  "at t i = \<lparr>now = t, uuidv4 = i, generated_user_id = ''u2'', failing_writes = {}\<rparr>"

text \<open>The state after Alice has logged in once, at time 1000.\<close>

definition one_login_state :: state where
  "one_login_state =
     \<lparr>users = [alice],
      refresh_tokens = [\<lparr>id_rt = ''r1'', token = ''refresh.u1.1.7d'', userId = ''u1'',
                          expiresAt = 604801000, isActive = True\<rparr>],
      cache = Map.empty\<rparr>"

text \<open>The state after Alice has logged in twice within the same second.\<close>

definition two_logins_state :: state where
  "two_logins_state =
     snd (login sample_env (at 1500 ''r2'')
            (snd (login sample_env (at 1000 ''r1'') sample_state alice_login)) alice_login)"

text \<open>Alice's refresh token is active and unexpired, and the cache holds a blacklist marker for it.\<close>

definition blacklisted_state :: state where
  "blacklisted_state =
     one_login_state\<lparr>cache := [''blacklist:refresh.u1.1.7d'' \<mapsto> (CBool True, 604801000)]\<rparr>"

text \<open>Alice's refresh token after it was deactivated.\<close>

definition revoked_state :: state where
  "revoked_state =
     \<lparr>users = [alice],
      refresh_tokens = [\<lparr>id_rt = ''r1'', token = ''refresh.u1.1.7d'', userId = ''u1'',
                          expiresAt = 604801000, isActive = False\<rparr>],
      cache = Map.empty\<rparr>"

text \<open>
  Two failed attempts are on record for Alice, an old lockout flag of hers has run out,
  and another identity is locked out.
\<close>

definition tried_state :: state where
  "tried_state =
     sample_state\<lparr>cache := [''attempts:alice@example.com'' \<mapsto> (CNum 2, 900500),
                              ''lockout:alice@example.com'' \<mapsto> (CBool True, 600),
                              ''lockout:carol@example.com'' \<mapsto> (CBool True, 900900)]\<rparr>"

definition five_failures :: "(ctx \<times> login_dto) list" where
  "five_failures =
     [(at 1000 ''a'', wrong_login), (at 2000 ''b'', wrong_login), (at 3000 ''c'', wrong_login),
      (at 4000 ''d'', wrong_login), (at 5000 ''e'', wrong_login)]"

text \<open>
  The collaborators with the signer of the repository's tests, which returns fixed tokens.
\<close>

definition mock_env :: env where
  "mock_env = sample_env\<lparr>signAsync :=
     (\<lambda>p opts t. Some (case p of AccessPayload sub e r v \<Rightarrow> ''access-token''
                                | RefreshPayload sub \<Rightarrow> ''refresh-token''))\<rparr>"

text \<open>Five failed logins for Alice, each 1000 seconds after the one before.\<close>

definition slow_failures :: "(ctx \<times> login_dto) list" where
  "slow_failures =
     [(at 0 ''a'', wrong_login), (at 1000000 ''b'', wrong_login), (at 2000000 ''c'', wrong_login),
      (at 3000000 ''d'', wrong_login), (at 4000000 ''e'', wrong_login)]"

definition slow_state :: state where
  "slow_state =
     sample_state\<lparr>cache := [''attempts:alice@example.com'' \<mapsto> (CNum 1, 4900000)]\<rparr>"

text \<open>Five failed logins for an email that no user has, one second apart.\<close>

definition ghost_failures :: "(ctx \<times> login_dto) list" where
  "ghost_failures =
     [(at 1000 ''a'', ghost_login), (at 2000 ''b'', ghost_login), (at 3000 ''c'', ghost_login),
      (at 4000 ''d'', ghost_login), (at 5000 ''e'', ghost_login)]"

text \<open>The state those five logins leave: the unknown email is locked out.\<close>

definition ghost_locked_state :: state where
  "ghost_locked_state =
     sample_state\<lparr>cache := [''lockout:nobody@example.com'' \<mapsto> (CBool True, 905000)]\<rparr>"

text \<open>Four failed attempts are on record for Alice and two for an email that no user has.\<close>

definition counting_state :: state where
  "counting_state =
     sample_state\<lparr>cache := [''attempts:alice@example.com'' \<mapsto> (CNum 4, 900500),
                              ''attempts:nobody@example.com'' \<mapsto> (CNum 2, 900500)]\<rparr>"

section \<open>Evaluation and helper lemmas\<close>

lemmas eval_defs =
  login_def login_body_def in_transaction_def checkUserLockout_def cache_get_def cache_set_def
  cache_del_def cache_get_number_def
  findByEmail_def verifyPassword_def simulatePasswordCheck_def clearFailedAttempts_def
  recordFailedAttempt_def generateTokenPair_def storeRefreshToken_def save_def upsert_def
  config_get_def refreshTokens_def refreshTokens_body_def findOne_active_def user_relation_def
  MAX_LOGIN_ATTEMPTS_def LOCKOUT_DURATION_def store_error_def Let_def

lemma replicate_numeral: "replicate (numeral k) x = x # replicate (pred_numeral k) x"
  by (simp add: numeral_eq_Suc)

lemmas sample_defs =
  replicate_numeral sample_sign_def sample_env_def alice_def sample_state_def alice_login_def
  at_def one_login_state_def

subsection \<open>login\<close>

lemma login_locked:
  assumes "cache s (''lockout:'' @ login_email dto) = Some (CBool True, until)"
    and "now c < until"
  shows "login E c s dto =
     (Inl (UnauthorizedException ''Account temporarily locked due to too many failed attempts''), s)"
  using assms by (simp add: login_def checkUserLockout_def cache_get_def Let_def)

lemma login_rejected:
  assumes "\<not> truthy (cache_get (cache s) (now c) (''lockout:'' @ login_email dto))"
    and "findByEmail s (login_email dto) = None \<or>
         (\<exists>u. findByEmail s (login_email dto) = Some u \<and>
              \<not> verifyPassword E (login_password dto) (password u))"
  shows "login E c s dto = (Inl (UnauthorizedException ''Invalid credentials''),
                           recordFailedAttempt s (now c) (login_email dto))"
  using assms
  by (auto simp: login_def login_body_def in_transaction_def checkUserLockout_def Let_def
        recordFailedAttempt_def)

lemma login_failed_state:
  assumes "login E c s dto = (Inl (UnauthorizedException ''Invalid credentials''), s1)"
  shows "s1 = recordFailedAttempt s (now c) (login_email dto)"
  using assms
  by (auto simp: login_def login_body_def in_transaction_def checkUserLockout_def Let_def
        recordFailedAttempt_def generateTokenPair_def storeRefreshToken_def save_def store_error_def
      split: sum.splits option.splits if_splits prod.splits)

lemma login_body_success:
  assumes "login_body E c dto s = (Inr r, s1)"
  shows "\<exists>u tokens. findByEmail s (login_email dto) = Some u
           \<and> verifyPassword E (login_password dto) (password u)
           \<and> generateTokenPair E c u = Inr tokens
           \<and> r = \<lparr>accessToken = accessToken tokens, refreshToken = refreshToken tokens,
                   user = \<lparr>id_u = id_u u, email = email u, name = name u, role = role u\<rparr>\<rparr>
           \<and> s1 = (clearFailedAttempts s (login_email dto))
                    \<lparr>refresh_tokens := upsert (refresh_tokens s)
                       \<lparr>id_rt = uuidv4 c, token = refreshToken tokens, userId = id_u u,
                        expiresAt = now c + 7 * 24 * 60 * 60 * 1000, isActive = True\<rparr>\<rparr>"
proof (cases "findByEmail s (login_email dto)")
  case None
  with assms show ?thesis by (simp add: login_body_def Let_def)
next
  case (Some u)
  have ok: "verifyPassword E (login_password dto) (password u)"
    using assms Some by (auto simp: login_body_def Let_def split: if_splits)
  obtain tokens where tokens: "generateTokenPair E c u = Inr tokens"
    using assms Some ok
    by (cases "generateTokenPair E c u") (auto simp: login_body_def Let_def)
  have w0: "0 \<notin> failing_writes c"
    using assms Some ok tokens
    by (auto simp: login_body_def Let_def storeRefreshToken_def save_def)
  have "r = \<lparr>accessToken = accessToken tokens, refreshToken = refreshToken tokens,
             user = \<lparr>id_u = id_u u, email = email u, name = name u, role = role u\<rparr>\<rparr>
        \<and> s1 = (clearFailedAttempts s (login_email dto))
                    \<lparr>refresh_tokens := upsert (refresh_tokens s)
                       \<lparr>id_rt = uuidv4 c, token = refreshToken tokens, userId = id_u u,
                        expiresAt = now c + 7 * 24 * 60 * 60 * 1000, isActive = True\<rparr>\<rparr>"
    using assms Some ok tokens w0
    by (auto simp: login_body_def Let_def storeRefreshToken_def save_def clearFailedAttempts_def)
  with Some ok tokens show ?thesis by blast
qed

lemma in_transaction_success:
  assumes "in_transaction c k body s = (Inr r, s')"
  shows "body s = (Inr r, s')"
  using assms
  by (cases "body s") (auto simp: in_transaction_def split: sum.splits if_splits)

lemma login_success:
  assumes "login E c s dto = (Inr r, s')"
  shows "login_body E c dto s = (Inr r, s')"
  using assms
  by (cases "checkUserLockout s (now c) (login_email dto)")
     (auto simp: login_def dest: in_transaction_success)

lemma generateTokenPair_refresh:
  assumes "generateTokenPair E c u = Inr tokens"
  shows "signAsync E (RefreshPayload (id_u u))
           \<lparr>secret = config E ''JWT_REFRESH_SECRET'',
            expiresIn = config_get E ''JWT_REFRESH_EXPIRATION'' ''7d''\<rparr> (now c)
         = Some (refreshToken tokens)"
  using assms
  by (auto simp: generateTokenPair_def Let_def split: option.splits)

subsection \<open>register\<close>

lemma register_body_success:
  assumes "register_body E c dto s = (Inr r, s1)"
  shows "\<exists>u tokens. generateTokenPair E c u = Inr tokens
           \<and> id_u (user r) = id_u u \<and> refreshToken r = refreshToken tokens
           \<and> refresh_tokens s1 = upsert (refresh_tokens s)
                 \<lparr>id_rt = uuidv4 c, token = refreshToken tokens, userId = id_u u,
                  expiresAt = now c + 7 * 24 * 60 * 60 * 1000, isActive = True\<rparr>"
proof (cases "findByEmail s (dto_email dto)")
  case (Some existingUser)
  with assms show ?thesis by (simp add: register_body_def)
next
  case None
  obtain cr s0 where cr: "create E c 0 s dto = (cr, s0)" by (cases "create E c 0 s dto")
  obtain u where u: "cr = Inr u"
    using assms None cr by (cases cr) (auto simp: register_body_def)
  have rows0: "refresh_tokens s0 = refresh_tokens s"
    using cr u None by (auto simp: create_def Let_def split: if_splits)
  obtain tokens where tokens: "generateTokenPair E c u = Inr tokens"
    using assms None cr u
    by (cases "generateTokenPair E c u") (auto simp: register_body_def)
  have w1: "1 \<notin> failing_writes c"
    using assms None cr u tokens
    by (auto simp: register_body_def storeRefreshToken_def save_def)
  have "id_u (user r) = id_u u \<and> refreshToken r = refreshToken tokens
        \<and> refresh_tokens s1 = upsert (refresh_tokens s0)
                 \<lparr>id_rt = uuidv4 c, token = refreshToken tokens, userId = id_u u,
                  expiresAt = now c + 7 * 24 * 60 * 60 * 1000, isActive = True\<rparr>"
    using assms None cr u tokens w1
    by (auto simp: register_body_def storeRefreshToken_def save_def)
  with tokens rows0 show ?thesis by auto
qed

subsection \<open>refreshTokens\<close>

lemma refresh_no_active:
  assumes "\<forall>x \<in> set (refresh_tokens s). token x = tok \<longrightarrow> \<not> isActive x"
  shows "refreshTokens E c s tok = (Inl (UnauthorizedException ''Invalid refresh token''), s)"
proof -
  have "findOne_active s tok = None"
    using assms by (auto simp: findOne_active_def find_None_iff)
  then show ?thesis
    by (simp add: refreshTokens_def refreshTokens_body_def in_transaction_def)
qed

lemma refresh_expired:
  assumes "findOne_active s tok = Some x" and "expiresAt x < now c"
  shows "refreshTokens E c s tok = (Inl (UnauthorizedException ''Invalid refresh token''), s)"
  using assms by (simp add: refreshTokens_def refreshTokens_body_def in_transaction_def)

lemma refresh_blacklisted:
  assumes "findOne_active s tok = Some x" and "\<not> expiresAt x < now c"
    and "truthy (cache_get (cache s) (now c) (''blacklist:'' @ tok))"
  shows "refreshTokens E c s tok = (Inl (UnauthorizedException ''Token has been revoked''), s)"
  using assms by (simp add: refreshTokens_def refreshTokens_body_def in_transaction_def)

lemma refresh_body_frame:
  assumes "refreshTokens_body E c tok s = (res, s1)"
  shows "cache s1 = cache s \<and> users s1 = users s"
  using assms
  by (simp add: refreshTokens_body_def Let_def split: option.splits if_splits sum.splits) auto

lemma refresh_body_success:
  assumes "refreshTokens_body E c tok s = (Inr r, s1)"
  shows "\<exists>old tokens. findOne_active s tok = Some old \<and> \<not> expiresAt old < now c
           \<and> \<not> truthy (cache_get (cache s) (now c) (''blacklist:'' @ tok))
           \<and> generateTokenPair E c (the (user_relation s old)) = Inr tokens
           \<and> refreshToken r = refreshToken tokens
           \<and> id_u (user r) = id_u (the (user_relation s old))
           \<and> refresh_tokens s1 =
               upsert (upsert (refresh_tokens s) (old\<lparr>isActive := False\<rparr>))
                 \<lparr>id_rt = uuidv4 c, token = refreshToken r, userId = id_u (user r),
                  expiresAt = now c + 7 * 24 * 60 * 60 * 1000, isActive = True\<rparr>"
proof (cases "findOne_active s tok")
  case None
  with assms show ?thesis by (simp add: refreshTokens_body_def)
next
  case (Some old)
  have fresh: "\<not> expiresAt old < now c"
    using assms Some by (auto simp: refreshTokens_body_def)
  have nbl: "\<not> truthy (cache_get (cache s) (now c) (''blacklist:'' @ tok))"
    using assms Some fresh by (auto simp: refreshTokens_body_def Let_def)
  have w0: "0 \<notin> failing_writes c"
    using assms Some fresh nbl by (auto simp: refreshTokens_body_def Let_def save_def)
  obtain u where u: "user_relation s old = Some u"
    using assms Some fresh nbl w0
    by (cases "user_relation s old") (auto simp: refreshTokens_body_def Let_def save_def)
  obtain tokens where tokens: "generateTokenPair E c u = Inr tokens"
    using assms Some fresh nbl w0 u
    by (cases "generateTokenPair E c u") (auto simp: refreshTokens_body_def Let_def save_def)
  have w1: "1 \<notin> failing_writes c"
    using assms Some fresh nbl w0 u tokens
    by (auto simp: refreshTokens_body_def Let_def save_def storeRefreshToken_def)
  have res: "r = \<lparr>accessToken = accessToken tokens, refreshToken = refreshToken tokens,
                  user = \<lparr>id_u = id_u u, email = email u, name = name u, role = role u\<rparr>\<rparr>"
    and rows: "refresh_tokens s1 =
                 upsert (upsert (refresh_tokens s) (old\<lparr>isActive := False\<rparr>))
                   \<lparr>id_rt = uuidv4 c, token = refreshToken tokens, userId = id_u u,
                    expiresAt = now c + 7 * 24 * 60 * 60 * 1000, isActive = True\<rparr>"
    using assms Some fresh nbl w0 u tokens w1
    by (auto simp: refreshTokens_body_def Let_def save_def storeRefreshToken_def)
  from Some fresh nbl rows u tokens show ?thesis by (simp add: res)
qed

lemma refresh_success:
  assumes "refreshTokens E c s tok = (Inr r, s')"
  shows "refreshTokens_body E c tok s = (Inr r, s')"
  using assms by (auto simp: refreshTokens_def dest: in_transaction_success)

lemma refresh_failure_state:
  assumes "refreshTokens E c s tok = (Inl e, s')"
  shows "s' = s"
proof (cases "refreshTokens_body E c tok s")
  case (Pair res s1)
  have keep: "cache s1 = cache s \<and> users s1 = users s"
    using refresh_body_frame[OF Pair] .
  from assms Pair have "s' = s1\<lparr>refresh_tokens := refresh_tokens s\<rparr>"
    by (cases res) (auto simp: refreshTokens_def in_transaction_def split: if_splits)
  with keep show ?thesis by simp
qed

lemma refresh_body_split:
  "refreshTokens_body E c tok s =
     (case refresh_read c tok s of
        Inl e \<Rightarrow> (Inl e, s)
      | Inr found \<Rightarrow> refresh_write_body E c found s)"
proof (cases "findOne_active s tok")
  case None
  then show ?thesis by (simp add: refreshTokens_body_def refresh_read_def)
next
  case (Some storedToken)
  show ?thesis
  proof (cases "expiresAt storedToken < now c")
    case True
    with Some show ?thesis by (simp add: refreshTokens_body_def refresh_read_def)
  next
    case False
    show ?thesis
    proof (cases "truthy (cache_get (cache s) (now c) (''blacklist:'' @ tok))")
      case True
      with Some False show ?thesis by (simp add: refreshTokens_body_def refresh_read_def)
    next
      case nbl: False
      with Some False show ?thesis
        by (simp add: refreshTokens_body_def refresh_read_def refresh_write_body_def Let_def
            split: sum.splits)
    qed
  qed
qed

lemma refreshTokens_split:
  "refreshTokens E c s tok =
     (case refresh_read c tok s of
        Inl e \<Rightarrow> (Inl e, s)
      | Inr found \<Rightarrow> refresh_write E c found s)"
proof (cases "refresh_read c tok s")
  case (Inl e)
  then show ?thesis
    by (simp add: refreshTokens_def in_transaction_def refresh_body_split)
next
  case (Inr found)
  then show ?thesis
    by (simp add: refreshTokens_def refresh_write_def in_transaction_def refresh_body_split)
qed

subsection \<open>logout\<close>

lemma update_inactive_row:
  assumes "x \<in> set (update_inactive crit rows)"
  obtains y where "y \<in> set rows" and "userId x = userId y" and "token x = token y"
    and "isActive x = (isActive y \<and> \<not> crit y)"
proof -
  from assms have "x \<in> (\<lambda>r. if crit r then r\<lparr>isActive := False\<rparr> else r) ` set rows"
    by (simp only: update_inactive_def set_map)
  then obtain y where y: "y \<in> set rows"
    and x: "x = (if crit y then y\<lparr>isActive := False\<rparr> else y)"
    by (rule imageE)
  show thesis
  proof (cases "crit y")
    case True
    with x have "x = y\<lparr>isActive := False\<rparr>" by simp
    then have "userId x = userId y" "token x = token y" "isActive x = (isActive y \<and> \<not> crit y)"
      using True by simp_all
    with y show thesis by (rule that)
  next
    case False
    with x have "x = y" by simp
    then have "userId x = userId y" "token x = token y" "isActive x = (isActive y \<and> \<not> crit y)"
      using False by simp_all
    with y show thesis by (rule that)
  qed
qed

lemma logout_rows:
  assumes "logout E c s tok uid = (Inr (), s')"
  shows "refresh_tokens s' = update_inactive (\<lambda>r. userId r = uid \<and> isActive r) (refresh_tokens s)"
  using assms
  by (auto simp: logout_def Let_def split: option.splits if_splits)

lemma logout_blacklist:
  assumes "logout E c s tok uid = (Inr (), s')"
    and "decode E tok = Some d" and "exp_claim d = Some e"
    and "0 < e - now c div 1000" and "e \<noteq> 0"
  shows "cache s' = (cache s)(''blacklist:'' @ tok \<mapsto> (CBool True, now c + (e - now c div 1000) * 1000))"
  using assms
  by (auto simp: logout_def Let_def cache_set_def split: option.splits if_splits)

lemma whole_seconds_le: "(n::int) div 1000 * 1000 \<le> n"
proof -
  have nonneg: "0 \<le> n mod 1000" by (rule pos_mod_sign) simp
  have "n div 1000 * 1000 \<le> n div 1000 * 1000 + n mod 1000"
    using nonneg by (rule le_add_same_cancel1[THEN iffD2])
  also have "\<dots> = n" by (rule div_mult_mod_eq)
  finally show ?thesis .
qed

subsection \<open>Lockout\<close>

lemma recordFailedAttempt_effect:
  "recordFailedAttempt s t e =
     s\<lparr>cache :=
          (if MAX_LOGIN_ATTEMPTS \<le> recorded_attempts s t e + 1
           then ((cache s)(''lockout:'' @ e \<mapsto> (CBool True, t + LOCKOUT_DURATION)))
                  (''attempts:'' @ e := None)
           else (cache s)(''attempts:'' @ e \<mapsto>
                  (CNum (recorded_attempts s t e + 1), t + LOCKOUT_DURATION)))\<rparr>"
  by (simp add: recordFailedAttempt_def recorded_attempts_def Let_def cache_set_def cache_del_def)

lemma record_below:
  assumes "recorded_attempts s t e + 1 < MAX_LOGIN_ATTEMPTS"
  shows "cache (recordFailedAttempt s t e) =
         (cache s)(''attempts:'' @ e \<mapsto> (CNum (recorded_attempts s t e + 1), t + LOCKOUT_DURATION))"
  using assms by (simp add: recordFailedAttempt_def recorded_attempts_def Let_def cache_set_def)

lemma record_reaches:
  assumes "recorded_attempts s t e + 1 \<ge> MAX_LOGIN_ATTEMPTS"
  shows "cache (recordFailedAttempt s t e) =
         ((cache s)(''lockout:'' @ e \<mapsto> (CBool True, t + LOCKOUT_DURATION)))(''attempts:'' @ e := None)"
  using assms
  by (simp add: recordFailedAttempt_def recorded_attempts_def Let_def cache_set_def cache_del_def)

lemma recorded_after:
  assumes "cache s1 = (cache s)(''attempts:'' @ e \<mapsto> (CNum n, t + LOCKOUT_DURATION))"
    and "t2 < t + LOCKOUT_DURATION"
  shows "recorded_attempts s1 t2 e = n"
  using assms by (simp add: recorded_attempts_def cache_get_number_def cache_get_def)

lemma streak_locks:
  assumes "failed_attempts E s calls = Some s'"
    and "calls \<noteq> []"
    and "\<forall>cd \<in> set calls. login_email (snd cd) = e"
    and "counter_alive (map (\<lambda>cd. now (fst cd)) calls)"
    and "recorded_attempts s (now (fst (hd calls))) e + length calls = MAX_LOGIN_ATTEMPTS"
  shows "cache s' (''lockout:'' @ e) = Some (CBool True, now (fst (last calls)) + LOCKOUT_DURATION)
       \<and> cache s' (''attempts:'' @ e) = None"
  using assms
proof (induction calls arbitrary: s)
  case Nil
  then show ?case by simp
next
  case (Cons cd rest)
  obtain c dto where cd: "cd = (c, dto)" by (cases cd)
  from Cons.prems(1) obtain s1 where
    step: "login E c s dto = (Inl (UnauthorizedException ''Invalid credentials''), s1)"
    and run: "failed_attempts E s1 rest = Some s'"
    by (auto simp: cd split: prod.splits sum.splits if_splits)
  have s1: "s1 = recordFailedAttempt s (now c) e"
    using login_failed_state[OF step] Cons.prems(3) by (simp add: cd)
  show ?case
  proof (cases rest)
    case Nil
    with Cons.prems(5) have "recorded_attempts s (now c) e + 1 \<ge> MAX_LOGIN_ATTEMPTS"
      by (simp add: cd)
    from record_reaches[OF this] run Nil show ?thesis
      by (simp add: s1 cd)
  next
    case (Cons cd2 rest2)
    from Cons.prems(5) Cons have below: "recorded_attempts s (now c) e + 1 < MAX_LOGIN_ATTEMPTS"
      by (simp add: cd)
    have alive: "now (fst cd2) < now c + LOCKOUT_DURATION"
      using Cons.prems(4) Cons by (simp add: cd)
    have "recorded_attempts s1 (now (fst cd2)) e = recorded_attempts s (now c) e + 1"
      using recorded_after[OF _ alive] record_below[OF below] by (simp add: s1)
    then have cnt: "recorded_attempts s1 (now (fst (hd rest))) e + length rest = MAX_LOGIN_ATTEMPTS"
      using Cons.prems(5) Cons by (simp add: cd)
    have "cache s' (''lockout:'' @ e) = Some (CBool True, now (fst (last rest)) + LOCKOUT_DURATION)
       \<and> cache s' (''attempts:'' @ e) = None"
      using Cons.IH[OF run _ _ _ cnt] Cons.prems(3,4) Cons by simp
    then show ?thesis using Cons by simp
  qed
qed

section \<open>The claims\<close>

subsection \<open>C1: presenting a rotated refresh token again\<close>

text \<open>
  Claim C1 says that after a successful \<open>refreshTokens\<close> with a token a second call with the
  same token fails. The code does not keep this. Alice logs in twice within one second; the
  signer returns the same refresh token both times, and two active rows carry it. A refresh
  with that token succeeds and deactivates the first of the two rows; a second refresh with
  the same token, two seconds later, finds the other row still active and succeeds as well.
\<close>

theorem refresh_rotated_token_accepted_again:
  "refresh_tokens two_logins_state =
     [\<lparr>id_rt = ''r1'', token = ''refresh.u1.1.7d'', userId = ''u1'',
       expiresAt = 604801000, isActive = True\<rparr>,
      \<lparr>id_rt = ''r2'', token = ''refresh.u1.1.7d'', userId = ''u1'',
       expiresAt = 604801500, isActive = True\<rparr>]
   \<and> fst (refreshTokens sample_env (at 5000 ''r3'') two_logins_state ''refresh.u1.1.7d'') =
       Inr \<lparr>accessToken = ''access.u1.11111.15m'', refreshToken = ''refresh.u1.11111.7d'',
            user = \<lparr>id_u = ''u1'', email = ''alice@example.com'', name = ''Alice'',
                    role = ''user''\<rparr>\<rparr>
   \<and> fst (refreshTokens sample_env (at 7000 ''r4'')
            (snd (refreshTokens sample_env (at 5000 ''r3'') two_logins_state ''refresh.u1.1.7d''))
            ''refresh.u1.1.7d'') =
       Inr \<lparr>accessToken = ''access.u1.1111111.15m'', refreshToken = ''refresh.u1.1111111.7d'',
            user = \<lparr>id_u = ''u1'', email = ''alice@example.com'', name = ''Alice'',
                    role = ''user''\<rparr>\<rparr>"
  by (simp add: two_logins_state_def eval_defs sample_defs)

text \<open>
  A refresh made in the second in which the token was issued gets the presented token back
  as the new one, stored again in an active row, and that token is then accepted a second
  time.
\<close>

lemma refresh_same_second_reissues_token:
  "fst (refreshTokens sample_env (at 1500 ''r2'') one_login_state ''refresh.u1.1.7d'') =
       Inr \<lparr>accessToken = ''access.u1.1.15m'', refreshToken = ''refresh.u1.1.7d'',
            user = \<lparr>id_u = ''u1'', email = ''alice@example.com'', name = ''Alice'',
                    role = ''user''\<rparr>\<rparr>
   \<and> fst (refreshTokens sample_env (at 5000 ''r3'')
            (snd (refreshTokens sample_env (at 1500 ''r2'') one_login_state ''refresh.u1.1.7d''))
            ''refresh.u1.1.7d'') =
       Inr \<lparr>accessToken = ''access.u1.11111.15m'', refreshToken = ''refresh.u1.11111.7d'',
            user = \<lparr>id_u = ''u1'', email = ''alice@example.com'', name = ''Alice'',
                    role = ''user''\<rparr>\<rparr>"
  by (simp add: eval_defs sample_defs)

subsection \<open>C2: two refreshes at the same time\<close>

text \<open>
  Claim C2 says that of two concurrent \<open>refreshTokens\<close> calls with one token exactly one
  succeeds. The code does not keep this. Two calls for Alice's token, one millisecond apart,
  both run their read part before either runs its write part: both find the row active.
  The first write part then succeeds and commits the row as inactive together with a new
  row; the second write part saves the row it read as inactive once more, stores a new row
  of its own and succeeds too. Both callers hold a new token pair, and both new rows are
  active.
\<close>

theorem concurrent_refresh_both_succeed:
  "refresh_read (at 5999 ''r2'') ''refresh.u1.1.7d'' one_login_state =
     Inr (\<lparr>id_rt = ''r1'', token = ''refresh.u1.1.7d'', userId = ''u1'',
            expiresAt = 604801000, isActive = True\<rparr>, Some alice)
   \<and> refresh_read (at 6000 ''r3'') ''refresh.u1.1.7d'' one_login_state =
     Inr (\<lparr>id_rt = ''r1'', token = ''refresh.u1.1.7d'', userId = ''u1'',
            expiresAt = 604801000, isActive = True\<rparr>, Some alice)
   \<and> fst (refresh_write sample_env (at 5999 ''r2'')
            (\<lparr>id_rt = ''r1'', token = ''refresh.u1.1.7d'', userId = ''u1'',
              expiresAt = 604801000, isActive = True\<rparr>, Some alice) one_login_state) =
       Inr \<lparr>accessToken = ''access.u1.11111.15m'', refreshToken = ''refresh.u1.11111.7d'',
            user = \<lparr>id_u = ''u1'', email = ''alice@example.com'', name = ''Alice'',
                    role = ''user''\<rparr>\<rparr>
   \<and> refresh_write sample_env (at 6000 ''r3'')
            (\<lparr>id_rt = ''r1'', token = ''refresh.u1.1.7d'', userId = ''u1'',
              expiresAt = 604801000, isActive = True\<rparr>, Some alice)
            (snd (refresh_write sample_env (at 5999 ''r2'')
               (\<lparr>id_rt = ''r1'', token = ''refresh.u1.1.7d'', userId = ''u1'',
                 expiresAt = 604801000, isActive = True\<rparr>, Some alice) one_login_state)) =
       (Inr \<lparr>accessToken = ''access.u1.111111.15m'', refreshToken = ''refresh.u1.111111.7d'',
            user = \<lparr>id_u = ''u1'', email = ''alice@example.com'', name = ''Alice'',
                    role = ''user''\<rparr>\<rparr>,
        \<lparr>users = [alice],
         refresh_tokens =
           [\<lparr>id_rt = ''r1'', token = ''refresh.u1.1.7d'', userId = ''u1'',
             expiresAt = 604801000, isActive = False\<rparr>,
            \<lparr>id_rt = ''r2'', token = ''refresh.u1.11111.7d'', userId = ''u1'',
             expiresAt = 604805999, isActive = True\<rparr>,
            \<lparr>id_rt = ''r3'', token = ''refresh.u1.111111.7d'', userId = ''u1'',
             expiresAt = 604806000, isActive = True\<rparr>],
         cache = Map.empty\<rparr>)"
  by (simp add: refresh_read_def refresh_write_def refresh_write_body_def eval_defs sample_defs)


subsection \<open>C3: rotation is all or nothing\<close>

text \<open>
  Claim C3. In every call of \<open>refreshTokens\<close>, whatever the collaborators do and whichever
  writes the store rejects, one of two things holds afterwards. Either the call fails, and
  then the whole state is the state before the call (the deactivation of the presented row
  is rolled back with everything else); or it succeeds, and then the rows are the rows
  before the call with the presented row saved as inactive and the new active row saved
  after it, while the users and the cache are unchanged.
\<close>

theorem refresh_rotation_atomic:
  assumes "refreshTokens E c s tok = (res, s')"
  shows "case res of
           Inl e \<Rightarrow> s' = s
         | Inr r \<Rightarrow>
            (\<exists>old. findOne_active s tok = Some old \<and>
               refresh_tokens s' =
                 upsert (upsert (refresh_tokens s) (old\<lparr>isActive := False\<rparr>))
                   \<lparr>id_rt = uuidv4 c, token = refreshToken r, userId = id_u (user r),
                    expiresAt = now c + 7 * 24 * 60 * 60 * 1000, isActive = True\<rparr>)
            \<and> users s' = users s \<and> cache s' = cache s"
proof (cases res)
  case (Inl e)
  with assms refresh_failure_state show ?thesis by simp
next
  case (Inr r)
  with assms have body: "refreshTokens_body E c tok s = (Inr r, s')"
    by (simp add: refresh_success)
  from refresh_body_success[OF body] refresh_body_frame[OF body] Inr
  show ?thesis by auto
qed

theorem refresh_rotation_atomic_witness:
  "refreshTokens sample_env ((at 5000 ''r2'')\<lparr>failing_writes := {1}\<rparr>) one_login_state
     ''refresh.u1.1.7d'' = (Inl store_error, one_login_state)
   \<and> (\<exists>r s'. refreshTokens sample_env (at 5000 ''r2'') one_login_state ''refresh.u1.1.7d''
                 = (Inr r, s')
         \<and> refresh_tokens s' =
             [\<lparr>id_rt = ''r1'', token = ''refresh.u1.1.7d'', userId = ''u1'',
               expiresAt = 604801000, isActive = False\<rparr>,
              \<lparr>id_rt = ''r2'', token = ''refresh.u1.11111.7d'', userId = ''u1'',
               expiresAt = 604805000, isActive = True\<rparr>])"
proof -
  obtain s1 where failed:
    "refreshTokens sample_env ((at 5000 ''r2'')\<lparr>failing_writes := {1}\<rparr>) one_login_state
       ''refresh.u1.1.7d'' = (Inl store_error, s1)"
    by (simp add: eval_defs sample_defs)
  from refresh_rotation_atomic[OF failed] have s1: "s1 = one_login_state" by simp
  obtain r s' where ok:
    "refreshTokens sample_env (at 5000 ''r2'') one_login_state ''refresh.u1.1.7d'' = (Inr r, s')"
    and r: "refreshToken r = ''refresh.u1.11111.7d''" "id_u (user r) = ''u1''"
    by (simp add: eval_defs sample_defs)
  have found: "findOne_active one_login_state ''refresh.u1.1.7d'' =
      Some \<lparr>id_rt = ''r1'', token = ''refresh.u1.1.7d'', userId = ''u1'',
            expiresAt = 604801000, isActive = True\<rparr>"
    by (simp add: findOne_active_def one_login_state_def)
  from refresh_rotation_atomic[OF ok] found r
  have "refresh_tokens s' =
             [\<lparr>id_rt = ''r1'', token = ''refresh.u1.1.7d'', userId = ''u1'',
               expiresAt = 604801000, isActive = False\<rparr>,
              \<lparr>id_rt = ''r2'', token = ''refresh.u1.11111.7d'', userId = ''u1'',
               expiresAt = 604805000, isActive = True\<rparr>]"
    by (simp add: upsert_def one_login_state_def at_def)
  with failed s1 ok show ?thesis by blast
qed

subsection \<open>C4: lockout after repeated failures\<close>

text \<open>
  Claim C4, as stated, fails. Five logins for Alice with a wrong password, each 1000
  seconds after the one before, all fail with the invalid credentials error; every one of
  them finds the attempt counter of the one before expired and records a count of one.
  No lockout flag is set, and a sixth login, with the correct password, succeeds.
\<close>

theorem lockout_after_max_attempts_counterexample:
  "length slow_failures = MAX_LOGIN_ATTEMPTS
   \<and> failed_attempts mock_env sample_state slow_failures = Some slow_state
   \<and> cache slow_state ''lockout:alice@example.com'' = None
   \<and> fst (login mock_env (at 4000001 ''r1'') slow_state alice_login) =
       Inr \<lparr>accessToken = ''access-token'', refreshToken = ''refresh-token'',
            user = \<lparr>id_u = ''u1'', email = ''alice@example.com'', name = ''Alice'',
                    role = ''user''\<rparr>\<rparr>"
  by (simp add: eval_defs sample_defs mock_env_def slow_failures_def slow_state_def
      wrong_login_def)

text \<open>
  Claim C4, amended. Take \<open>MAX_LOGIN_ATTEMPTS\<close> (five) login calls for one identity made one
  after the other, each failing with the invalid credentials error, starting when the cache
  holds no count for the identity, each call made less than \<open>LOCKOUT_DURATION\<close> after the
  one before, so that the count it wrote is still in the cache. After the last of them the
  lockout flag is set and expires \<open>LOCKOUT_DURATION\<close> (fifteen minutes) after that call, and
  the attempt counter is deleted. As long as that flag is in the cache and has not expired,
  every login for the identity, whatever the password, the users table and the password
  check are, fails with the lockout error and leaves the state as it is; once the duration
  has elapsed the lockout check passes again.
\<close>

theorem lockout_after_max_attempts:
  assumes "failed_attempts E s calls = Some s'"
    and "length calls = MAX_LOGIN_ATTEMPTS"
    and "\<forall>cd \<in> set calls. login_email (snd cd) = e"
    and "counter_alive (map (\<lambda>cd. now (fst cd)) calls)"
    and "cache_get_number (cache s) (now (fst (hd calls))) (''attempts:'' @ e) = None"
  shows "cache s' (''lockout:'' @ e) = Some (CBool True, now (fst (last calls)) + LOCKOUT_DURATION)
       \<and> cache s' (''attempts:'' @ e) = None
       \<and> (\<forall>E' c' s'' dto. login_email dto = e
             \<and> cache s'' (''lockout:'' @ e) = cache s' (''lockout:'' @ e)
             \<and> now c' < now (fst (last calls)) + LOCKOUT_DURATION \<longrightarrow>
            login E' c' s'' dto =
              (Inl (UnauthorizedException
                 ''Account temporarily locked due to too many failed attempts''), s''))
       \<and> (\<forall>t. now (fst (last calls)) + LOCKOUT_DURATION \<le> t \<longrightarrow>
            checkUserLockout s' t e = Inr ())"
proof -
  have ne: "calls \<noteq> []" using assms(2) by (auto simp: MAX_LOGIN_ATTEMPTS_def)
  have "recorded_attempts s (now (fst (hd calls))) e + length calls = MAX_LOGIN_ATTEMPTS"
    using assms(2,5) by (simp add: recorded_attempts_def)
  from streak_locks[OF assms(1) ne assms(3,4) this]
  have flag: "cache s' (''lockout:'' @ e) =
                Some (CBool True, now (fst (last calls)) + LOCKOUT_DURATION)"
    and cnt: "cache s' (''attempts:'' @ e) = None" by simp_all
  have locked: "\<forall>E' c' s'' dto. login_email dto = e
             \<and> cache s'' (''lockout:'' @ e) = cache s' (''lockout:'' @ e)
             \<and> now c' < now (fst (last calls)) + LOCKOUT_DURATION \<longrightarrow>
            login E' c' s'' dto =
              (Inl (UnauthorizedException
                 ''Account temporarily locked due to too many failed attempts''), s'')"
    using flag login_locked by auto
  have after: "\<forall>t. now (fst (last calls)) + LOCKOUT_DURATION \<le> t \<longrightarrow>
            checkUserLockout s' t e = Inr ()"
    using flag by (simp add: checkUserLockout_def cache_get_def Let_def)
  from flag cnt locked after show ?thesis by blast
qed

theorem lockout_after_max_attempts_witness:
  "\<exists>s'. failed_attempts sample_env sample_state five_failures = Some s'
     \<and> length five_failures = 5
     \<and> cache s' ''lockout:alice@example.com'' = Some (CBool True, 905000)
     \<and> cache s' ''attempts:alice@example.com'' = None
     \<and> login sample_env (at 904999 ''r1'') s' alice_login =
         (Inl (UnauthorizedException
            ''Account temporarily locked due to too many failed attempts''), s')
     \<and> checkUserLockout s' 905000 ''alice@example.com'' = Inr ()"
proof -
  obtain s' where run: "failed_attempts sample_env sample_state five_failures = Some s'"
    by (simp add: eval_defs sample_defs five_failures_def wrong_login_def)
  have len: "length five_failures = MAX_LOGIN_ATTEMPTS"
    by (simp add: five_failures_def MAX_LOGIN_ATTEMPTS_def)
  have same: "\<forall>cd \<in> set five_failures. login_email (snd cd) = ''alice@example.com''"
    by (simp add: five_failures_def wrong_login_def)
  have alive: "counter_alive (map (\<lambda>cd. now (fst cd)) five_failures)"
    by (simp add: five_failures_def at_def LOCKOUT_DURATION_def)
  have fresh: "cache_get_number (cache sample_state) (now (fst (hd five_failures)))
                 (''attempts:'' @ ''alice@example.com'') = None"
    by (simp add: cache_get_number_def cache_get_def sample_state_def)
  have last: "now (fst (last five_failures)) + LOCKOUT_DURATION = 905000"
    by (simp add: five_failures_def at_def LOCKOUT_DURATION_def)
  have e: "login_email alice_login = ''alice@example.com''"
    and t: "now (at 904999 ''r1'') < 905000"
    by (simp_all add: alice_login_def at_def)
  from lockout_after_max_attempts[OF run len same alive fresh]
  have "cache s' ''lockout:alice@example.com'' = Some (CBool True, 905000)"
    and "cache s' ''attempts:alice@example.com'' = None"
    and "login sample_env (at 904999 ''r1'') s' alice_login =
         (Inl (UnauthorizedException
            ''Account temporarily locked due to too many failed attempts''), s')"
    and "checkUserLockout s' 905000 ''alice@example.com'' = Inr ()"
    using e t by (simp_all add: last)
  with run len show ?thesis by (simp add: MAX_LOGIN_ATTEMPTS_def)
qed

subsection \<open>C5: the errors of a failing refresh\<close>

text \<open>
  Claim C5, as stated, fails. A refresh with a blacklisted token whose row is active and
  unexpired fails with \<^verbatim>\<open>UnauthorizedException('Token has been revoked')\<close>; a refresh with a
  token whose row is inactive fails with \<^verbatim>\<open>UnauthorizedException('Invalid refresh token')\<close>.
  The two errors differ.
\<close>

theorem refresh_errors_counterexample:
  "fst (refreshTokens sample_env (at 5000 ''r2'') blacklisted_state ''refresh.u1.1.7d'') =
     Inl (UnauthorizedException ''Token has been revoked'')
   \<and> fst (refreshTokens sample_env (at 5000 ''r2'') revoked_state ''refresh.u1.1.7d'') =
     Inl (UnauthorizedException ''Invalid refresh token'')
   \<and> fst (refreshTokens sample_env (at 5000 ''r2'') blacklisted_state ''refresh.u1.1.7d'') \<noteq>
     fst (refreshTokens sample_env (at 5000 ''r2'') revoked_state ''refresh.u1.1.7d'')"
  by (simp add: eval_defs sample_defs blacklisted_state_def revoked_state_def)

text \<open>
  Claim C5, amended. A refresh fails with \<^verbatim>\<open>UnauthorizedException('Invalid refresh token')\<close>
  when no row carries the token, when no active row carries it, and when the active row
  found is past its expiry; these three cannot be told apart. When the row found is active
  and unexpired and the cache holds a truthy \<^verbatim>\<open>blacklist:<token>\<close>, the refresh fails with the
  same exception class and the message \<^verbatim>\<open>'Token has been revoked'\<close>. In all four cases the
  state is unchanged.
\<close>

theorem refresh_error_kinds:
  "((\<forall>x \<in> set (refresh_tokens s). token x \<noteq> tok) \<longrightarrow>
      refreshTokens E c s tok = (Inl (UnauthorizedException ''Invalid refresh token''), s))
   \<and> ((\<forall>x \<in> set (refresh_tokens s). token x = tok \<longrightarrow> \<not> isActive x) \<longrightarrow>
      refreshTokens E c s tok = (Inl (UnauthorizedException ''Invalid refresh token''), s))
   \<and> ((\<exists>x. findOne_active s tok = Some x \<and> expiresAt x < now c) \<longrightarrow>
      refreshTokens E c s tok = (Inl (UnauthorizedException ''Invalid refresh token''), s))
   \<and> ((\<exists>x. findOne_active s tok = Some x \<and> \<not> expiresAt x < now c)
        \<and> truthy (cache_get (cache s) (now c) (''blacklist:'' @ tok)) \<longrightarrow>
      refreshTokens E c s tok = (Inl (UnauthorizedException ''Token has been revoked''), s))"
proof (intro conjI impI)
  assume "\<forall>x \<in> set (refresh_tokens s). token x \<noteq> tok"
  then have "\<forall>x \<in> set (refresh_tokens s). token x = tok \<longrightarrow> \<not> isActive x" by simp
  then show "refreshTokens E c s tok = (Inl (UnauthorizedException ''Invalid refresh token''), s)"
    by (rule refresh_no_active)
next
  assume "\<forall>x \<in> set (refresh_tokens s). token x = tok \<longrightarrow> \<not> isActive x"
  then show "refreshTokens E c s tok = (Inl (UnauthorizedException ''Invalid refresh token''), s)"
    by (rule refresh_no_active)
next
  assume "\<exists>x. findOne_active s tok = Some x \<and> expiresAt x < now c"
  then show "refreshTokens E c s tok = (Inl (UnauthorizedException ''Invalid refresh token''), s)"
    using refresh_expired by blast
next
  assume "(\<exists>x. findOne_active s tok = Some x \<and> \<not> expiresAt x < now c)
        \<and> truthy (cache_get (cache s) (now c) (''blacklist:'' @ tok))"
  then show "refreshTokens E c s tok = (Inl (UnauthorizedException ''Token has been revoked''), s)"
    using refresh_blacklisted by blast
qed

theorem refresh_error_kinds_witness:
  "refreshTokens sample_env (at 5000 ''r2'') sample_state ''refresh.u1.1.7d'' =
     (Inl (UnauthorizedException ''Invalid refresh token''), sample_state)
   \<and> refreshTokens sample_env (at 5000 ''r2'') revoked_state ''refresh.u1.1.7d'' =
     (Inl (UnauthorizedException ''Invalid refresh token''), revoked_state)
   \<and> refreshTokens sample_env (at 604801001 ''r2'') one_login_state ''refresh.u1.1.7d'' =
     (Inl (UnauthorizedException ''Invalid refresh token''), one_login_state)
   \<and> refreshTokens sample_env (at 5000 ''r2'') blacklisted_state ''refresh.u1.1.7d'' =
     (Inl (UnauthorizedException ''Token has been revoked''), blacklisted_state)"
proof -
  have missing: "\<forall>x \<in> set (refresh_tokens sample_state). token x \<noteq> ''refresh.u1.1.7d''"
    by (simp add: sample_state_def)
  have inactive: "\<forall>x \<in> set (refresh_tokens revoked_state).
                    token x = ''refresh.u1.1.7d'' \<longrightarrow> \<not> isActive x"
    by (simp add: revoked_state_def)
  have expired: "\<exists>x. findOne_active one_login_state ''refresh.u1.1.7d'' = Some x
                   \<and> expiresAt x < now (at 604801001 ''r2'')"
    by (simp add: findOne_active_def one_login_state_def at_def)
  have blacklisted:
    "(\<exists>x. findOne_active blacklisted_state ''refresh.u1.1.7d'' = Some x
          \<and> \<not> expiresAt x < now (at 5000 ''r2''))
     \<and> truthy (cache_get (cache blacklisted_state) (now (at 5000 ''r2''))
                 (''blacklist:'' @ ''refresh.u1.1.7d''))"
    by (simp add: findOne_active_def blacklisted_state_def one_login_state_def at_def cache_get_def)
  from refresh_error_kinds[of sample_state "''refresh.u1.1.7d''" sample_env "at 5000 ''r2''"] missing
  have a: "refreshTokens sample_env (at 5000 ''r2'') sample_state ''refresh.u1.1.7d'' =
     (Inl (UnauthorizedException ''Invalid refresh token''), sample_state)" by blast
  from refresh_error_kinds[of revoked_state "''refresh.u1.1.7d''" sample_env "at 5000 ''r2''"] inactive
  have b: "refreshTokens sample_env (at 5000 ''r2'') revoked_state ''refresh.u1.1.7d'' =
     (Inl (UnauthorizedException ''Invalid refresh token''), revoked_state)" by blast
  from refresh_error_kinds[of one_login_state "''refresh.u1.1.7d''" sample_env
      "at 604801001 ''r2''"] expired
  have c: "refreshTokens sample_env (at 604801001 ''r2'') one_login_state ''refresh.u1.1.7d'' =
     (Inl (UnauthorizedException ''Invalid refresh token''), one_login_state)" by blast
  from refresh_error_kinds[of blacklisted_state "''refresh.u1.1.7d''" sample_env "at 5000 ''r2''"]
    blacklisted
  have d: "refreshTokens sample_env (at 5000 ''r2'') blacklisted_state ''refresh.u1.1.7d'' =
     (Inl (UnauthorizedException ''Token has been revoked''), blacklisted_state)" by blast
  from a b c d show ?thesis by blast
qed

subsection \<open>C6: unknown email and wrong password\<close>

text \<open>
  Claim C6, as stated, fails. Five failed logins for an email that no user has lock that
  identity out. A further login with it fails with the lockout error and records nothing,
  while a login with Alice's email and a wrong password fails with
  \<^verbatim>\<open>UnauthorizedException('Invalid credentials')\<close>. The two errors differ.
\<close>

theorem login_anti_enumeration_counterexample:
  "failed_attempts sample_env sample_state ghost_failures = Some ghost_locked_state
   \<and> findByEmail ghost_locked_state ''nobody@example.com'' = None
   \<and> login sample_env (at 6000 ''r1'') ghost_locked_state ghost_login =
       (Inl (UnauthorizedException
          ''Account temporarily locked due to too many failed attempts''), ghost_locked_state)
   \<and> fst (login sample_env (at 6000 ''r1'') ghost_locked_state wrong_login) =
       Inl (UnauthorizedException ''Invalid credentials'')
   \<and> fst (login sample_env (at 6000 ''r1'') ghost_locked_state ghost_login) \<noteq>
       fst (login sample_env (at 6000 ''r1'') ghost_locked_state wrong_login)"
  by (simp add: eval_defs sample_defs ghost_failures_def ghost_locked_state_def ghost_login_def
      wrong_login_def fun_eq_iff)

text \<open>
  Claim C6, amended. For every password, a login with an email that no user has and a login
  with a user's email and a wrong password, neither identity being locked out at the time
  of its call, fail with the same error, \<^verbatim>\<open>UnauthorizedException('Invalid credentials')\<close>.
  Each records one failed attempt for the identity presented and changes nothing else:
  the count under \<^verbatim>\<open>attempts:<e>\<close> becomes one more than the count the cache held, kept for
  \<open>LOCKOUT_DURATION\<close> from the call; or, when that reaches \<open>MAX_LOGIN_ATTEMPTS\<close>, the flag
  \<^verbatim>\<open>lockout:<e>\<close> is set for \<open>LOCKOUT_DURATION\<close> and the count is deleted.
\<close>

theorem login_anti_enumeration:
  assumes "findByEmail s1 e1 = None"
    and "findByEmail s2 e2 = Some u"
    and "\<not> verifyPassword E p (password u)"
    and "\<not> truthy (cache_get (cache s1) (now c1) (''lockout:'' @ e1))"
    and "\<not> truthy (cache_get (cache s2) (now c2) (''lockout:'' @ e2))"
  shows "login E c1 s1 \<lparr>login_email = e1, login_password = p\<rparr> =
           (Inl (UnauthorizedException ''Invalid credentials''),
            s1\<lparr>cache :=
              (if MAX_LOGIN_ATTEMPTS \<le> recorded_attempts s1 (now c1) e1 + 1
               then ((cache s1)(''lockout:'' @ e1 \<mapsto> (CBool True, now c1 + LOCKOUT_DURATION)))
                      (''attempts:'' @ e1 := None)
               else (cache s1)(''attempts:'' @ e1 \<mapsto>
                      (CNum (recorded_attempts s1 (now c1) e1 + 1), now c1 + LOCKOUT_DURATION)))\<rparr>)
       \<and> login E c2 s2 \<lparr>login_email = e2, login_password = p\<rparr> =
           (Inl (UnauthorizedException ''Invalid credentials''),
            s2\<lparr>cache :=
              (if MAX_LOGIN_ATTEMPTS \<le> recorded_attempts s2 (now c2) e2 + 1
               then ((cache s2)(''lockout:'' @ e2 \<mapsto> (CBool True, now c2 + LOCKOUT_DURATION)))
                      (''attempts:'' @ e2 := None)
               else (cache s2)(''attempts:'' @ e2 \<mapsto>
                      (CNum (recorded_attempts s2 (now c2) e2 + 1), now c2 + LOCKOUT_DURATION)))\<rparr>)"
proof -
  have a: "login E c1 s1 \<lparr>login_email = e1, login_password = p\<rparr> =
           (Inl (UnauthorizedException ''Invalid credentials''), recordFailedAttempt s1 (now c1) e1)"
    using login_rejected[of s1 c1 "\<lparr>login_email = e1, login_password = p\<rparr>" E] assms(1,4)
    by simp
  have b: "login E c2 s2 \<lparr>login_email = e2, login_password = p\<rparr> =
           (Inl (UnauthorizedException ''Invalid credentials''), recordFailedAttempt s2 (now c2) e2)"
    using login_rejected[of s2 c2 "\<lparr>login_email = e2, login_password = p\<rparr>" E] assms(2,3,5)
    by simp
  show ?thesis
    unfolding a b
    by (simp only: recordFailedAttempt_effect[symmetric] simp_thms)
qed

theorem login_anti_enumeration_witness:
  "findByEmail counting_state ''nobody@example.com'' = None \<and>
   findByEmail counting_state ''alice@example.com'' = Some (alice\<lparr>tokenVersion := None\<rparr>) \<and>
   \<not> verifyPassword sample_env ''wrong'' (password alice) \<and>
   recorded_attempts counting_state 1000 ''nobody@example.com'' = 2 \<and>
   recorded_attempts counting_state 1000 ''alice@example.com'' = 4 \<and>
   fst (login sample_env (at 1000 ''r1'') counting_state ghost_login) =
     Inl (UnauthorizedException ''Invalid credentials'') \<and>
   fst (login sample_env (at 1000 ''r1'') counting_state wrong_login) =
     Inl (UnauthorizedException ''Invalid credentials'') \<and>
   cache (snd (login sample_env (at 1000 ''r1'') counting_state ghost_login))
     ''attempts:nobody@example.com'' = Some (CNum 3, 901000) \<and>
   cache (snd (login sample_env (at 1000 ''r1'') counting_state ghost_login))
     ''lockout:nobody@example.com'' = None \<and>
   cache (snd (login sample_env (at 1000 ''r1'') counting_state wrong_login))
     ''attempts:alice@example.com'' = None \<and>
   cache (snd (login sample_env (at 1000 ''r1'') counting_state wrong_login))
     ''lockout:alice@example.com'' = Some (CBool True, 901000)"
proof -
  have h1: "findByEmail counting_state ''nobody@example.com'' = None"
    by (simp add: findByEmail_def sample_defs counting_state_def)
  have h2: "findByEmail counting_state ''alice@example.com'' = Some (alice\<lparr>tokenVersion := None\<rparr>)"
    by (simp add: findByEmail_def sample_defs counting_state_def)
  have h3: "\<not> verifyPassword sample_env ''wrong'' (password (alice\<lparr>tokenVersion := None\<rparr>))"
    by (simp add: verifyPassword_def sample_defs)
  have h4: "\<not> truthy (cache_get (cache counting_state) (now (at 1000 ''r1''))
                 (''lockout:'' @ ''nobody@example.com''))"
    by (simp add: cache_get_def sample_defs counting_state_def)
  have h5: "\<not> truthy (cache_get (cache counting_state) (now (at 1000 ''r1''))
                 (''lockout:'' @ ''alice@example.com''))"
    by (simp add: cache_get_def sample_defs counting_state_def)
  have n1: "recorded_attempts counting_state 1000 ''nobody@example.com'' = 2"
    and n2: "recorded_attempts counting_state 1000 ''alice@example.com'' = 4"
    by (simp_all add: recorded_attempts_def cache_get_number_def cache_get_def sample_defs
        counting_state_def)
  have t: "now (at 1000 ''r1'') = 1000" by (simp add: at_def)
  have before: "cache counting_state ''lockout:nobody@example.com'' = None"
    by (simp add: counting_state_def)
  from login_anti_enumeration[OF h1 h2 h3 h4 h5] h1 h2 h3 n1 n2 before
  show ?thesis
    by (simp add: ghost_login_def wrong_login_def t MAX_LOGIN_ATTEMPTS_def LOCKOUT_DURATION_def)
qed


subsection \<open>C7: logout\<close>

text \<open>
  Claim C7. Let a logout succeed for an access token whose decoded expiry lies after the
  current second (the clock being past the epoch). Afterwards the cache holds
  \<^verbatim>\<open>blacklist:<accessToken>\<close> with the value true and a time to live of the remaining
  lifetime in whole seconds, so that the lookup returns true at every time before the
  token's expiry; every row of the user is inactive; and a refresh with a token whose rows
  all belong to that user fails with \<^verbatim>\<open>UnauthorizedException('Invalid refresh token')\<close>.
\<close>

theorem logout_postcondition:
  assumes "logout E c s tok uid = (Inr (), s')"
    and "decode E tok = Some d" and "exp_claim d = Some e"
    and "0 < e - now c div 1000" and "0 \<le> now c"
  shows "cache s' (''blacklist:'' @ tok) = Some (CBool True, now c + (e - now c div 1000) * 1000)
       \<and> (\<forall>t. t < e * 1000 \<longrightarrow> cache_get (cache s') t (''blacklist:'' @ tok) = Some (CBool True))
       \<and> (\<forall>x \<in> set (refresh_tokens s'). userId x = uid \<longrightarrow> \<not> isActive x)
       \<and> (\<forall>E' c' rt. (\<forall>x \<in> set (refresh_tokens s). token x = rt \<longrightarrow> userId x = uid) \<longrightarrow>
             refreshTokens E' c' s' rt = (Inl (UnauthorizedException ''Invalid refresh token''), s'))"
proof -
  have "0 \<le> now c div 1000" using assms(5) by simp
  with assms(4) have ne: "e \<noteq> 0" by linarith
  have bl: "cache s' =
      (cache s)(''blacklist:'' @ tok \<mapsto> (CBool True, now c + (e - now c div 1000) * 1000))"
    using logout_blacklist[OF assms(1-4) ne] .
  have ge: "e * 1000 \<le> now c + (e - now c div 1000) * 1000"
    using whole_seconds_le[of "now c"] by (simp add: algebra_simps)
  have rows: "refresh_tokens s' =
      update_inactive (\<lambda>r. userId r = uid \<and> isActive r) (refresh_tokens s)"
    using logout_rows[OF assms(1)] .
  have inactive: "\<forall>x \<in> set (refresh_tokens s'). userId x = uid \<longrightarrow> \<not> isActive x"
  proof (intro ballI impI)
    fix x
    assume x: "x \<in> set (refresh_tokens s')" and u: "userId x = uid"
    from x have "x \<in> set (update_inactive (\<lambda>r. userId r = uid \<and> isActive r) (refresh_tokens s))"
      by (simp only: rows)
    then show "\<not> isActive x"
    proof (rule update_inactive_row)
      fix y
      assume "userId x = userId y"
        and "isActive x = (isActive y \<and> \<not> (userId y = uid \<and> isActive y))"
      with u show ?thesis by simp
    qed
  qed
  have refresh: "\<forall>E' c' rt. (\<forall>x \<in> set (refresh_tokens s). token x = rt \<longrightarrow> userId x = uid) \<longrightarrow>
             refreshTokens E' c' s' rt = (Inl (UnauthorizedException ''Invalid refresh token''), s')"
  proof (intro allI impI)
    fix E' c' rt
    assume own: "\<forall>x \<in> set (refresh_tokens s). token x = rt \<longrightarrow> userId x = uid"
    have "\<forall>x \<in> set (refresh_tokens s'). token x = rt \<longrightarrow> \<not> isActive x"
    proof (intro ballI impI)
      fix x
      assume x: "x \<in> set (refresh_tokens s')" and t: "token x = rt"
      from x have "x \<in> set (update_inactive (\<lambda>r. userId r = uid \<and> isActive r) (refresh_tokens s))"
        by (simp only: rows)
      then show "\<not> isActive x"
      proof (rule update_inactive_row)
        fix y
        assume "y \<in> set (refresh_tokens s)" and "token x = token y"
          and "isActive x = (isActive y \<and> \<not> (userId y = uid \<and> isActive y))"
        with t own show ?thesis by simp
      qed
    qed
    then show "refreshTokens E' c' s' rt =
                 (Inl (UnauthorizedException ''Invalid refresh token''), s')"
      by (rule refresh_no_active)
  qed
  have live: "\<forall>t. t < e * 1000 \<longrightarrow>
      cache_get (cache s') t (''blacklist:'' @ tok) = Some (CBool True)"
    using ge by (simp add: bl cache_get_def)
  have entry: "cache s' (''blacklist:'' @ tok) =
      Some (CBool True, now c + (e - now c div 1000) * 1000)"
    by (simp add: bl)
  from entry live inactive refresh show ?thesis
    by blast
qed

theorem logout_postcondition_witness:
  "\<exists>s'. logout sample_env (at 1000 ''x'') one_login_state ''access.u1.1.15m'' ''u1'' = (Inr (), s')
     \<and> decode sample_env ''access.u1.1.15m'' = Some \<lparr>exp_claim = Some 901\<rparr>
     \<and> cache s' ''blacklist:access.u1.1.15m'' = Some (CBool True, 901000)
     \<and> cache_get (cache s') 900999 ''blacklist:access.u1.1.15m'' = Some (CBool True)
     \<and> refresh_tokens s' = [\<lparr>id_rt = ''r1'', token = ''refresh.u1.1.7d'', userId = ''u1'',
                               expiresAt = 604801000, isActive = False\<rparr>]
     \<and> refreshTokens sample_env (at 2000 ''r2'') s' ''refresh.u1.1.7d'' =
         (Inl (UnauthorizedException ''Invalid refresh token''), s')"
proof -
  obtain s' where run:
    "logout sample_env (at 1000 ''x'') one_login_state ''access.u1.1.15m'' ''u1'' = (Inr (), s')"
    by (simp add: logout_def eval_defs sample_defs)
  have rows: "refresh_tokens s' = [\<lparr>id_rt = ''r1'', token = ''refresh.u1.1.7d'', userId = ''u1'',
                               expiresAt = 604801000, isActive = False\<rparr>]"
    using run by (auto simp: logout_def update_inactive_def eval_defs sample_defs)
  have dec: "decode sample_env ''access.u1.1.15m'' = Some \<lparr>exp_claim = Some 901\<rparr>"
    by (simp add: sample_env_def)
  have ex: "exp_claim \<lparr>exp_claim = Some 901\<rparr> = Some 901" by simp
  have life: "0 < 901 - now (at 1000 ''x'') div 1000" and clock: "0 \<le> now (at 1000 ''x'')"
    by (simp_all add: at_def)
  have own: "\<forall>x \<in> set (refresh_tokens one_login_state).
               token x = ''refresh.u1.1.7d'' \<longrightarrow> userId x = ''u1''"
    by (simp add: one_login_state_def)
  have t: "(900999::int) < 901 * 1000" by simp
  from logout_postcondition[OF run dec ex life clock] own t
  have "cache s' ''blacklist:access.u1.1.15m'' = Some (CBool True, 901000)"
    and "cache_get (cache s') 900999 ''blacklist:access.u1.1.15m'' = Some (CBool True)"
    and "refreshTokens sample_env (at 2000 ''r2'') s' ''refresh.u1.1.7d'' =
         (Inl (UnauthorizedException ''Invalid refresh token''), s')"
    by (simp_all add: at_def)
  with run dec rows show ?thesis by blast
qed

subsection \<open>C8: what a successful login does to the cache\<close>

text \<open>
  Claim C8. After a successful login for an identity the cache is the cache before the call
  with the attempt counter \<^verbatim>\<open>attempts:<e>\<close> deleted: the lockout flag \<^verbatim>\<open>lockout:<e>\<close> and every
  other entry are as they were.
\<close>

theorem login_success_clears_only_counter:
  assumes "login E c s dto = (Inr r, s')"
  shows "cache s' = cache_del (cache s) (''attempts:'' @ login_email dto) \<and>
         cache s' (''attempts:'' @ login_email dto) = None \<and>
         cache s' (''lockout:'' @ login_email dto) = cache s (''lockout:'' @ login_email dto) \<and>
         (\<forall>k. k \<noteq> ''attempts:'' @ login_email dto \<longrightarrow> cache s' k = cache s k)"
proof -
  from login_body_success[OF login_success[OF assms]]
  have "cache s' = cache (clearFailedAttempts s (login_email dto))" by auto
  then show ?thesis by (simp add: clearFailedAttempts_def cache_del_def)
qed

theorem login_success_clears_only_counter_witness:
  "(\<exists>r s'. login sample_env (at 1000 ''r1'') tried_state alice_login = (Inr r, s') \<and>
      cache s' ''attempts:alice@example.com'' = None \<and>
      cache s' ''lockout:alice@example.com'' = Some (CBool True, 600) \<and>
      cache s' ''lockout:carol@example.com'' = Some (CBool True, 900900)) \<and>
   cache tried_state ''attempts:alice@example.com'' = Some (CNum 2, 900500)"
proof -
  obtain r s' where run: "login sample_env (at 1000 ''r1'') tried_state alice_login = (Inr r, s')"
    by (simp add: eval_defs sample_defs tried_state_def)
  have before: "cache tried_state ''attempts:alice@example.com'' = Some (CNum 2, 900500)"
    "cache tried_state ''lockout:alice@example.com'' = Some (CBool True, 600)"
    "cache tried_state ''lockout:carol@example.com'' = Some (CBool True, 900900)"
    by (simp_all add: sample_defs tried_state_def)
  have e: "login_email alice_login = ''alice@example.com''"
    by (simp add: alice_login_def)
  from login_success_clears_only_counter[OF run] before
  have "cache s' ''attempts:alice@example.com'' = None \<and>
      cache s' ''lockout:alice@example.com'' = Some (CBool True, 600) \<and>
      cache s' ''lockout:carol@example.com'' = Some (CBool True, 900900)"
    by (simp add: e cache_del_def)
  with run before show ?thesis by blast
qed

subsection \<open>C9: validateUser\<close>

text \<open>
  Claim C9. \<open>validateUser\<close> only reads the cache: it returns the state it was given, and
  its result is the cached user under \<^verbatim>\<open>user:<userId>\<close>. When the cache has no live entry
  under that key it returns nothing, and \<open>validateUserRoles\<close> is then false for every
  list of roles.
\<close>

theorem validateUser_never_populates:
  "snd (validateUser s t uid) = s \<and>
   fst (validateUser s t uid) = cache_get_user (cache s) t (''user:'' @ uid) \<and>
   (cache_get (cache s) t (''user:'' @ uid) = None \<longrightarrow>
      fst (validateUser s t uid) = None \<and>
      (\<forall>requiredRoles. validateUserRoles s t uid requiredRoles = (False, s)))"
  by (simp add: validateUser_def validateUserRoles_def cache_get_user_def Let_def
      split: option.splits)

theorem validateUser_never_populates_witness:
  "cache_get (cache sample_state) 1000 (''user:'' @ ''u1'') = None \<and>
   validateUser sample_state 1000 ''u1'' = (None, sample_state) \<and>
   validateUserRoles sample_state 1000 ''u1'' [''admin'', ''user''] = (False, sample_state)"
proof -
  have absent: "cache_get (cache sample_state) 1000 (''user:'' @ ''u1'') = None"
    by (simp add: cache_get_def sample_state_def)
  from validateUser_never_populates[of sample_state 1000 "''u1''"] absent
  have "snd (validateUser sample_state 1000 ''u1'') = sample_state"
    and "fst (validateUser sample_state 1000 ''u1'') = None"
    and "validateUserRoles sample_state 1000 ''u1'' [''admin'', ''user''] = (False, sample_state)"
    by blast+
  with absent show ?thesis by (simp add: prod_eq_iff)
qed

subsection \<open>C10: the expiry of a stored refresh token\<close>

text \<open>
  Claim C10. Whenever \<open>login\<close>, \<open>register\<close> or \<open>refreshTokens\<close> succeeds, the row it saves for
  the refresh token it returns is active and expires exactly seven days
  (\<open>7 * 24 * 60 * 60 * 1000\<close> milliseconds) after the time of the call, for every
  configuration; the token itself is what the signer returns for the expiration found
  under \<^verbatim>\<open>JWT_REFRESH_EXPIRATION\<close> (default \<^verbatim>\<open>7d\<close>). So a configured expiration other than
  seven days changes the signed token and not the row.
\<close>

theorem stored_refresh_token_expiry:
  "(login E c s ldto = (Inr r, s') \<longrightarrow>
      refresh_tokens s' = upsert (refresh_tokens s)
        \<lparr>id_rt = uuidv4 c, token = refreshToken r, userId = id_u (user r),
         expiresAt = now c + 7 * 24 * 60 * 60 * 1000, isActive = True\<rparr>
      \<and> signAsync E (RefreshPayload (id_u (user r)))
           \<lparr>secret = config E ''JWT_REFRESH_SECRET'',
            expiresIn = config_get E ''JWT_REFRESH_EXPIRATION'' ''7d''\<rparr> (now c)
          = Some (refreshToken r))
   \<and> (register E c s rdto = (Inr r, s') \<longrightarrow>
      refresh_tokens s' = upsert (refresh_tokens s)
        \<lparr>id_rt = uuidv4 c, token = refreshToken r, userId = id_u (user r),
         expiresAt = now c + 7 * 24 * 60 * 60 * 1000, isActive = True\<rparr>
      \<and> signAsync E (RefreshPayload (id_u (user r)))
           \<lparr>secret = config E ''JWT_REFRESH_SECRET'',
            expiresIn = config_get E ''JWT_REFRESH_EXPIRATION'' ''7d''\<rparr> (now c)
          = Some (refreshToken r))
   \<and> (refreshTokens E c s tok = (Inr r, s') \<longrightarrow>
      (\<exists>old. findOne_active s tok = Some old \<and>
         refresh_tokens s' = upsert (upsert (refresh_tokens s) (old\<lparr>isActive := False\<rparr>))
           \<lparr>id_rt = uuidv4 c, token = refreshToken r, userId = id_u (user r),
            expiresAt = now c + 7 * 24 * 60 * 60 * 1000, isActive = True\<rparr>)
      \<and> signAsync E (RefreshPayload (id_u (user r)))
           \<lparr>secret = config E ''JWT_REFRESH_SECRET'',
            expiresIn = config_get E ''JWT_REFRESH_EXPIRATION'' ''7d''\<rparr> (now c)
          = Some (refreshToken r))"
proof (intro conjI impI)
  assume run: "login E c s ldto = (Inr r, s')"
  from login_body_success[OF login_success[OF run]] obtain u tokens where
    tokens: "generateTokenPair E c u = Inr tokens"
    and r: "r = \<lparr>accessToken = accessToken tokens, refreshToken = refreshToken tokens,
                 user = \<lparr>id_u = id_u u, email = email u, name = name u, role = role u\<rparr>\<rparr>"
    and s': "s' = (clearFailedAttempts s (login_email ldto))
                    \<lparr>refresh_tokens := upsert (refresh_tokens s)
                       \<lparr>id_rt = uuidv4 c, token = refreshToken tokens, userId = id_u u,
                        expiresAt = now c + 7 * 24 * 60 * 60 * 1000, isActive = True\<rparr>\<rparr>"
    by blast
  show "refresh_tokens s' = upsert (refresh_tokens s)
        \<lparr>id_rt = uuidv4 c, token = refreshToken r, userId = id_u (user r),
         expiresAt = now c + 7 * 24 * 60 * 60 * 1000, isActive = True\<rparr>"
    by (simp add: r s')
  show "signAsync E (RefreshPayload (id_u (user r)))
           \<lparr>secret = config E ''JWT_REFRESH_SECRET'',
            expiresIn = config_get E ''JWT_REFRESH_EXPIRATION'' ''7d''\<rparr> (now c)
          = Some (refreshToken r)"
    using generateTokenPair_refresh[OF tokens] by (simp add: r)
next
  assume run: "register E c s rdto = (Inr r, s')"
  then have body: "register_body E c rdto s = (Inr r, s')"
    by (auto simp: register_def dest: in_transaction_success)
  from register_body_success[OF body] obtain u tokens where
    tokens: "generateTokenPair E c u = Inr tokens"
    and r: "id_u (user r) = id_u u" "refreshToken r = refreshToken tokens"
    and rows: "refresh_tokens s' = upsert (refresh_tokens s)
                 \<lparr>id_rt = uuidv4 c, token = refreshToken tokens, userId = id_u u,
                  expiresAt = now c + 7 * 24 * 60 * 60 * 1000, isActive = True\<rparr>"
    by blast
  show "refresh_tokens s' = upsert (refresh_tokens s)
        \<lparr>id_rt = uuidv4 c, token = refreshToken r, userId = id_u (user r),
         expiresAt = now c + 7 * 24 * 60 * 60 * 1000, isActive = True\<rparr>"
    by (simp add: r rows)
  show "signAsync E (RefreshPayload (id_u (user r)))
           \<lparr>secret = config E ''JWT_REFRESH_SECRET'',
            expiresIn = config_get E ''JWT_REFRESH_EXPIRATION'' ''7d''\<rparr> (now c)
          = Some (refreshToken r)"
    using generateTokenPair_refresh[OF tokens] by (simp add: r)
next
  assume run: "refreshTokens E c s tok = (Inr r, s')"
  from refresh_body_success[OF refresh_success[OF run]] obtain old tokens where
    old: "findOne_active s tok = Some old"
    and tokens: "generateTokenPair E c (the (user_relation s old)) = Inr tokens"
    and r: "refreshToken r = refreshToken tokens"
           "id_u (user r) = id_u (the (user_relation s old))"
    and rows: "refresh_tokens s' =
               upsert (upsert (refresh_tokens s) (old\<lparr>isActive := False\<rparr>))
                 \<lparr>id_rt = uuidv4 c, token = refreshToken r, userId = id_u (user r),
                  expiresAt = now c + 7 * 24 * 60 * 60 * 1000, isActive = True\<rparr>"
    by blast
  from old rows show "\<exists>old. findOne_active s tok = Some old \<and>
         refresh_tokens s' = upsert (upsert (refresh_tokens s) (old\<lparr>isActive := False\<rparr>))
           \<lparr>id_rt = uuidv4 c, token = refreshToken r, userId = id_u (user r),
            expiresAt = now c + 7 * 24 * 60 * 60 * 1000, isActive = True\<rparr>"
    by blast
  show "signAsync E (RefreshPayload (id_u (user r)))
           \<lparr>secret = config E ''JWT_REFRESH_SECRET'',
            expiresIn = config_get E ''JWT_REFRESH_EXPIRATION'' ''7d''\<rparr> (now c)
          = Some (refreshToken r)"
    using generateTokenPair_refresh[OF tokens] by (simp add: r)
qed

theorem stored_refresh_token_expiry_witness:
  "(\<exists>r s'. login month_env (at 1000 ''r1'') sample_state alice_login = (Inr r, s')
       \<and> refreshToken r = ''refresh.u1.1.30d''
       \<and> refresh_tokens s' =
           [\<lparr>id_rt = ''r1'', token = ''refresh.u1.1.30d'', userId = ''u1'',
             expiresAt = 1000 + 604800000, isActive = True\<rparr>])
   \<and> (\<exists>r s'. register month_env (at 1000 ''r1'') sample_state bob_dto = (Inr r, s')
       \<and> refreshToken r = ''refresh.u2.1.30d''
       \<and> refresh_tokens s' =
           [\<lparr>id_rt = ''r1'', token = ''refresh.u2.1.30d'', userId = ''u2'',
             expiresAt = 1000 + 604800000, isActive = True\<rparr>])
   \<and> (\<exists>r s'. refreshTokens month_env (at 5000 ''r2'') one_login_state ''refresh.u1.1.7d''
                 = (Inr r, s')
       \<and> refreshToken r = ''refresh.u1.11111.30d''
       \<and> refresh_tokens s' =
           [\<lparr>id_rt = ''r1'', token = ''refresh.u1.1.7d'', userId = ''u1'',
             expiresAt = 604801000, isActive = False\<rparr>,
            \<lparr>id_rt = ''r2'', token = ''refresh.u1.11111.30d'', userId = ''u1'',
             expiresAt = 5000 + 604800000, isActive = True\<rparr>])"
proof -
  obtain r1 s1 where a: "login month_env (at 1000 ''r1'') sample_state alice_login = (Inr r1, s1)"
    and ar: "refreshToken r1 = ''refresh.u1.1.30d''" "id_u (user r1) = ''u1''"
    by (simp add: register_def register_body_def create_def eval_defs sample_defs month_env_def
        bob_dto_def)
  obtain r2 s2 where b: "register month_env (at 1000 ''r1'') sample_state bob_dto = (Inr r2, s2)"
    and br: "refreshToken r2 = ''refresh.u2.1.30d''" "id_u (user r2) = ''u2''"
    by (simp add: register_def register_body_def create_def eval_defs sample_defs month_env_def
        bob_dto_def)
  obtain r3 s3 where c:
    "refreshTokens month_env (at 5000 ''r2'') one_login_state ''refresh.u1.1.7d'' = (Inr r3, s3)"
    and cr: "refreshToken r3 = ''refresh.u1.11111.30d''" "id_u (user r3) = ''u1''"
    by (simp add: register_def register_body_def create_def eval_defs sample_defs month_env_def
        bob_dto_def)
  have found: "findOne_active one_login_state ''refresh.u1.1.7d'' =
      Some \<lparr>id_rt = ''r1'', token = ''refresh.u1.1.7d'', userId = ''u1'',
            expiresAt = 604801000, isActive = True\<rparr>"
    by (simp add: findOne_active_def one_login_state_def)
  have rows1: "refresh_tokens s1 =
           [\<lparr>id_rt = ''r1'', token = ''refresh.u1.1.30d'', userId = ''u1'',
             expiresAt = 1000 + 604800000, isActive = True\<rparr>]"
    using stored_refresh_token_expiry[of month_env "at 1000 ''r1''" sample_state alice_login r1 s1]
      a ar by (simp add: upsert_def sample_state_def at_def)
  have rows2: "refresh_tokens s2 =
           [\<lparr>id_rt = ''r1'', token = ''refresh.u2.1.30d'', userId = ''u2'',
             expiresAt = 1000 + 604800000, isActive = True\<rparr>]"
    using stored_refresh_token_expiry[of month_env "at 1000 ''r1''" sample_state _ r2 s2 bob_dto]
      b br by (simp add: upsert_def sample_state_def at_def)
  have rows3: "refresh_tokens s3 =
           [\<lparr>id_rt = ''r1'', token = ''refresh.u1.1.7d'', userId = ''u1'',
             expiresAt = 604801000, isActive = False\<rparr>,
            \<lparr>id_rt = ''r2'', token = ''refresh.u1.11111.30d'', userId = ''u1'',
             expiresAt = 5000 + 604800000, isActive = True\<rparr>]"
    using stored_refresh_token_expiry[of month_env "at 5000 ''r2''" one_login_state _ r3 s3 _
        "''refresh.u1.1.7d''"]
      c cr found by (simp add: upsert_def one_login_state_def at_def)
  from a ar rows1 b br rows2 c cr rows3 show ?thesis by blast
qed


end
